theory Spec2Isabelle
  imports Main
begin

section \<open>The platform the service worker runs on\<close>

text \<open>
  \<^verbatim>\<open>src/sw.js\<close> holds two service workers, one after the other: lines 1-191 (Policy A,
  a static and a dynamic cache) and lines 193-414 (Policy B, one static cache, an offline
  page). Each registers listeners for the worker's lifecycle events. The listeners only
  call the platform: the cache storage (\<^verbatim>\<open>caches\<close>), the network (\<^verbatim>\<open>fetch\<close>), the console,
  the worker's own controls and the message ports. This section models those calls; the
  sections after it translate the listeners line by line.
\<close>

subsection \<open>Values\<close>

datatype jserror = TypeError string | DOMException string

text \<open>A settled promise: fulfilled with a value, or rejected with an error.\<close>

datatype 'a promise = Resolved 'a | Rejected jserror

datatype jsval =
    JUndefined
  | JNull
  | JBool bool
  | JStr string
  | JErr jserror
  | JObj "(string \<times> jsval) list"

datatype rtype = Basic | Cors | Default | ErrorType | Opaque | OpaqueRedirect

text \<open>What a response carries, and what a cache keeps of it.\<close>

record response =
  status :: nat
  rtype :: rtype
  headers :: "(string \<times> string) list"
  body :: string

text \<open>
  A \<^verbatim>\<open>Response\<close> object of the script: its body is a stream that is read once, so the
  object carries the flag \<^verbatim>\<open>bodyUsed\<close> beside what it holds.
\<close>

record robj =
  content :: response
  bodyUsed :: bool

record request =
  http_method :: string
  url :: string
  destination :: string

record message_event =
  data :: jsval
  ports :: "nat list"

text \<open>The calls the script makes on the platform, in the order it makes them.\<close>

datatype call =
    NetFetch string
  | CachesMatch string
  | CachesOpen string
  | CachesKeys
  | CachesDelete string
  | CacheAddAll string "string list"
  | CachePut string string
  | SkipWaiting
  | ClientsClaim

datatype level = Info | Error

text \<open>
  A cache maps request URLs to stored responses; the cache storage lists the named
  caches in the order of their creation. \<open>objs\<close> is the heap of the script's
  \<^verbatim>\<open>Response\<close> objects (a reference is an index), \<open>uncaught\<close> collects the errors
  nobody handles (an exception leaving a listener, a rejected promise without handler).
\<close>

type_synonym cache = "(string \<times> response) list"

record world =
  caches :: "(string \<times> cache) list"
  objs :: "robj list"
  calls :: "call list"
  console :: "(level \<times> string \<times> jsval) list"
  uncaught :: "jserror list"
  posted :: "(nat \<times> jsval) list"

text \<open>
  What the script does not control: the worker's origin (\<^verbatim>\<open>self.location.origin\<close>), the
  URL of the directory the worker script is served from (relative URLs resolve against
  it), what the network answers for a URL, and whether the storage refuses to open a
  cache or to store an entry (quota, a response the cache does not accept).
\<close>

record env =
  origin :: string
  base :: string
  net :: "string \<Rightarrow> jserror + response"
  open_err :: "string \<Rightarrow> jserror option"
  put_err :: "string \<Rightarrow> string \<Rightarrow> jserror option"

subsection \<open>Promise chains\<close>

text \<open>
  An asynchronous operation takes the world as it is and leaves a settled promise and
  the world it made.
\<close>

type_synonym 'a task = "world \<Rightarrow> 'a promise \<times> world"

text \<open>
  A listener runs to its end before any callback of a promise does. So the operation a
  listener calls takes place when the listener runs, and what the listener holds is a
  promise that is settled already when the callbacks chained to it run. The chains
  that the listeners of one event leave behind run one after the other, in the order
  of the listeners.
\<close>

definition started :: "'a task \<Rightarrow> world \<Rightarrow> 'a task \<times> world" where
  "started p w = (case p w of (r, w') \<Rightarrow> (Pair r, w'))"

text \<open>\<^verbatim>\<open>p.then(f)\<close>: \<open>f\<close> runs on fulfilment, a rejection passes through.\<close>

definition then_p :: "'a task \<Rightarrow> ('a \<Rightarrow> 'b task) \<Rightarrow> 'b task" where
  "then_p p f w =
     (case p w of
        (Resolved v, w') \<Rightarrow> f v w'
      | (Rejected e, w') \<Rightarrow> (Rejected e, w'))"

text \<open>\<^verbatim>\<open>p.catch(h)\<close>: \<open>h\<close> runs on rejection, a value passes through.\<close>

definition catch_p :: "'a task \<Rightarrow> (jserror \<Rightarrow> 'a task) \<Rightarrow> 'a task" where
  "catch_p p h w =
     (case p w of
        (Resolved v, w') \<Rightarrow> (Resolved v, w')
      | (Rejected e, w') \<Rightarrow> h e w')"

text \<open>
  A promise that the script starts and neither returns nor awaits: its effects take
  place, its value is dropped, and its rejection is an unhandled one.
\<close>

definition detached :: "'a task \<Rightarrow> world \<Rightarrow> world" where
  "detached p w =
     (case p w of
        (Resolved v, w') \<Rightarrow> w'
      | (Rejected e, w') \<Rightarrow> w'\<lparr>uncaught := uncaught w' @ [e]\<rparr>)"

text \<open>
  \<^verbatim>\<open>Promise.all(xs.map(f))\<close>: every callback runs; the result is rejected when one of
  the promises is.
\<close>

fun all_map :: "('a \<Rightarrow> 'b task) \<Rightarrow> 'a list \<Rightarrow> 'b list task" where
  "all_map f [] w = (Resolved [], w)"
| "all_map f (x # xs) w =
     (case f x w of
        (r, w1) \<Rightarrow>
          (case all_map f xs w1 of
             (rs, w2) \<Rightarrow>
               ((case r of
                   Rejected e \<Rightarrow> Rejected e
                 | Resolved v \<Rightarrow>
                     (case rs of Rejected e \<Rightarrow> Rejected e | Resolved vs \<Rightarrow> Resolved (v # vs))),
                w2)))"

subsection \<open>Console, controls, ports\<close>

definition log :: "level \<Rightarrow> string \<Rightarrow> jsval \<Rightarrow> world \<Rightarrow> world" where
  "log l m a w = w\<lparr>console := console w @ [(l, m, a)]\<rparr>"

definition called :: "call \<Rightarrow> world \<Rightarrow> world" where
  "called c w = w\<lparr>calls := calls w @ [c]\<rparr>"

definition skipWaiting :: "unit task" where
  "skipWaiting w = (Resolved (), called SkipWaiting w)"

definition clients_claim :: "unit task" where
  "clients_claim w = (Resolved (), called ClientsClaim w)"

text \<open>
  \<^verbatim>\<open>event.ports[0].postMessage(m)\<close>: with no port in the event, \<^verbatim>\<open>event.ports[0]\<close> is
  undefined and the call throws.
\<close>

definition post_first :: "nat list \<Rightarrow> jsval \<Rightarrow> unit task" where
  "post_first ps m w =
     (case ps of
        [] \<Rightarrow> (Rejected (TypeError ''Cannot read properties of undefined''), w)
      | p # _ \<Rightarrow> (Resolved (), w\<lparr>posted := posted w @ [(p, m)]\<rparr>))"

text \<open>\<^verbatim>\<open>event.data && event.data.type === t\<close>\<close>

fun has_type :: "jsval \<Rightarrow> string \<Rightarrow> bool" where
  "has_type (JObj fs) t = (map_of fs ''type'' = Some (JStr t))"
| "has_type _ t = False"

subsection \<open>URLs\<close>

text \<open>\<^verbatim>\<open>s.startsWith(p)\<close> and \<^verbatim>\<open>s.includes(p)\<close>\<close>

fun startsWith :: "string \<Rightarrow> string \<Rightarrow> bool" where
  "startsWith s [] = True"
| "startsWith [] (c # p) = False"
| "startsWith (a # s) (c # p) = (a = c \<and> startsWith s p)"

fun includes_str :: "string \<Rightarrow> string \<Rightarrow> bool" where
  "includes_str [] p = (p = [])"
| "includes_str (a # s) p = (startsWith (a # s) p \<or> includes_str s p)"

text \<open>
  The relative URLs of the script (\<^verbatim>\<open>'./'\<close>, \<^verbatim>\<open>'./index.html'\<close>, \<^verbatim>\<open>'./manifest.json'\<close>)
  resolve against the directory of the worker script.
\<close>

definition resolve :: "env \<Rightarrow> string \<Rightarrow> string" where
  "resolve env u = (if startsWith u ''./'' then base env @ drop 2 u else u)"

text \<open>
  The origin of a serialised http(s) URL: scheme, \<^verbatim>\<open>://\<close>, host and port, that is, the
  URL up to the first slash after the \<^verbatim>\<open>://\<close>.
\<close>

fun scheme_end :: "string \<Rightarrow> nat option" where
  "scheme_end [] = None"
| "scheme_end (c # s) =
     (if startsWith (c # s) ''://'' then Some 0
      else (case scheme_end s of None \<Rightarrow> None | Some n \<Rightarrow> Some (Suc n)))"

definition origin_of :: "string \<Rightarrow> string" where
  "origin_of u =
     (case scheme_end u of
        None \<Rightarrow> u
      | Some n \<Rightarrow> take (n + 3) u @ takeWhile (\<lambda>c. c \<noteq> CHR ''/'') (drop (n + 3) u))"

subsection \<open>The cache storage\<close>

text \<open>
  A cache compares the URL of a request with the URL of an entry without their
  fragments, and \<^verbatim>\<open>cache.match(r)\<close> answers with the first entry that matches.
\<close>

definition no_fragment :: "string \<Rightarrow> string" where
  "no_fragment u = takeWhile (\<lambda>c. c \<noteq> CHR ''#'') u"

fun cache_match :: "cache \<Rightarrow> string \<Rightarrow> response option" where
  "cache_match [] u = None"
| "cache_match ((k, r) # c) u =
     (if no_fragment k = no_fragment u then Some r else cache_match c u)"

text \<open>
  \<^verbatim>\<open>caches.match(r)\<close> asks every cache of the storage, in the order of creation, and
  answers with the first entry found, or with undefined.
\<close>

fun storage_lookup :: "(string \<times> cache) list \<Rightarrow> string \<Rightarrow> response option" where
  "storage_lookup [] u = None"
| "storage_lookup ((n, c) # cs) u =
     (case cache_match c u of Some r \<Rightarrow> Some r | None \<Rightarrow> storage_lookup cs u)"

definition alloc :: "response \<Rightarrow> world \<Rightarrow> nat \<times> world" where
  "alloc r w = (length (objs w), w\<lparr>objs := objs w @ [\<lparr>content = r, bodyUsed = False\<rparr>]\<rparr>)"

definition deref :: "world \<Rightarrow> nat \<Rightarrow> robj option" where
  "deref w p = (if p < length (objs w) then Some (objs w ! p) else None)"

definition caches_match :: "string \<Rightarrow> nat option task" where
  "caches_match u w =
     (let w1 = called (CachesMatch u) w in
      case storage_lookup (caches w1) u of
        None \<Rightarrow> (Resolved None, w1)
      | Some r \<Rightarrow> (case alloc r w1 of (p, w2) \<Rightarrow> (Resolved (Some p), w2)))"

text \<open>\<^verbatim>\<open>caches.open(name)\<close> creates the cache when there is none of that name.\<close>

definition caches_open :: "env \<Rightarrow> string \<Rightarrow> string task" where
  "caches_open env name w =
     (let w1 = called (CachesOpen name) w in
      case open_err env name of
        Some e \<Rightarrow> (Rejected e, w1)
      | None \<Rightarrow>
          (Resolved name,
           if name \<in> set (map fst (caches w1)) then w1
           else w1\<lparr>caches := caches w1 @ [(name, [])]\<rparr>))"

definition caches_keys :: "string list task" where
  "caches_keys w = (Resolved (map fst (caches w)), called CachesKeys w)"

text \<open>\<^verbatim>\<open>caches.delete(name)\<close> answers whether there was such a cache; it never fails.\<close>

definition caches_delete :: "string \<Rightarrow> bool task" where
  "caches_delete name w =
     (let w1 = called (CachesDelete name) w in
      (Resolved (name \<in> set (map fst (caches w1))),
       w1\<lparr>caches := filter (\<lambda>nc. fst nc \<noteq> name) (caches w1)\<rparr>))"

text \<open>Storing an entry replaces the entries that match its request.\<close>

definition cache_store :: "cache \<Rightarrow> string \<Rightarrow> response \<Rightarrow> cache" where
  "cache_store c u r = filter (\<lambda>kv. no_fragment (fst kv) \<noteq> no_fragment u) c @ [(u, r)]"

definition storage_store :: "(string \<times> cache) list \<Rightarrow> string \<Rightarrow> string \<Rightarrow> response \<Rightarrow> (string \<times> cache) list" where
  "storage_store cs name u r =
     map (\<lambda>nc. if fst nc = name then (fst nc, cache_store (snd nc) u r) else nc) cs"

text \<open>
  \<^verbatim>\<open>cache.put(request, response)\<close> reads the body of the response object it is given: it
  rejects when that body was read before or when the storage refuses the entry, and
  otherwise leaves the object used and the entry stored.
\<close>

definition cache_put :: "env \<Rightarrow> string \<Rightarrow> string \<Rightarrow> nat \<Rightarrow> unit task" where
  "cache_put env name u p w =
     (let w1 = called (CachePut name u) w in
      case deref w1 p of
        None \<Rightarrow> (Rejected (TypeError ''not a Response''), w1)
      | Some ob \<Rightarrow>
          if bodyUsed ob then (Rejected (TypeError ''Response body is already used''), w1)
          else
            (case put_err env name u of
               Some e \<Rightarrow> (Rejected e, w1)
             | None \<Rightarrow>
                 (Resolved (),
                  w1\<lparr>objs := (objs w1)[p := ob\<lparr>bodyUsed := True\<rparr>],
                      caches := storage_store (caches w1) name u (content ob)\<rparr>)))"

text \<open>\<^verbatim>\<open>response.clone()\<close> throws when the body was read; else it makes a second object.\<close>

definition clone :: "nat \<Rightarrow> nat task" where
  "clone p w =
     (case deref w p of
        None \<Rightarrow> (Rejected (TypeError ''not a Response''), w)
      | Some ob \<Rightarrow>
          if bodyUsed ob then (Rejected (TypeError ''Response body is already used''), w)
          else (case alloc (content ob) w of (q, w1) \<Rightarrow> (Resolved q, w1)))"

text \<open>\<^verbatim>\<open>fetch(request)\<close> goes to the network; a response of any status fulfils it.\<close>

definition net_fetch :: "env \<Rightarrow> string \<Rightarrow> nat task" where
  "net_fetch env u w =
     (let w1 = called (NetFetch u) w in
      case net env u of
        Inl e \<Rightarrow> (Rejected e, w1)
      | Inr r \<Rightarrow> (case alloc r w1 of (p, w2) \<Rightarrow> (Resolved p, w2)))"

text \<open>
  \<^verbatim>\<open>cache.addAll(urls)\<close> fetches every URL and stores the responses only when every
  fetch succeeded with a status from 200 to 299 other than 206; otherwise it rejects and
  stores none.
\<close>

fun first_failure :: "(jserror + response) list \<Rightarrow> jserror option" where
  "first_failure [] = None"
| "first_failure (Inl e # rs) = Some e"
| "first_failure (Inr r # rs) =
     (if 200 \<le> status r \<and> status r \<le> 299 \<and> status r \<noteq> 206 then first_failure rs
      else Some (TypeError ''Request failed''))"

fun store_all :: "(string \<times> cache) list \<Rightarrow> string \<Rightarrow> (string \<times> (jserror + response)) list \<Rightarrow> (string \<times> cache) list" where
  "store_all cs name [] = cs"
| "store_all cs name ((u, Inr r) # rest) = store_all (storage_store cs name u r) name rest"
| "store_all cs name ((u, Inl e) # rest) = store_all cs name rest"

definition cache_addAll :: "env \<Rightarrow> string \<Rightarrow> string list \<Rightarrow> unit task" where
  "cache_addAll env name urls w =
     (let us = map (resolve env) urls;
          w1 = called (CacheAddAll name us) w;
          w2 = w1\<lparr>calls := calls w1 @ map NetFetch us\<rparr>;
          rs = map (net env) us in
      case first_failure rs of
        Some e \<Rightarrow> (Rejected e, w2)
      | None \<Rightarrow> (Resolved (), w2\<lparr>caches := store_all (caches w2) name (zip us rs)\<rparr>))"

section \<open>Policy A: lines 1-191\<close>

definition CACHE_NAME_A :: string where
  "CACHE_NAME_A = ''better-yourself-v1.0.0''"

text \<open>Both workers declare \<^verbatim>\<open>STATIC_CACHE\<close> and \<^verbatim>\<open>STATIC_FILES\<close>, with the same values.\<close>

definition STATIC_CACHE :: string where
  "STATIC_CACHE = ''better-yourself-static-v1''"

definition DYNAMIC_CACHE :: string where
  "DYNAMIC_CACHE = ''better-yourself-dynamic-v1''"

definition STATIC_FILES :: "string list" where
  "STATIC_FILES = [''./'', ''./index.html'', ''./manifest.json'']"

text \<open>
  An install or activate event succeeds when every promise its listeners handed to
  \<^verbatim>\<open>event.waitUntil\<close> is fulfilled.
\<close>

fun waitUntil :: "unit promise list \<Rightarrow> unit promise" where
  "waitUntil [] = Resolved ()"
| "waitUntil (Resolved v # ps) = waitUntil ps"
| "waitUntil (Rejected e # ps) = Rejected e"

text \<open>
  Lines 16-33: the first install listener writes a line, calls \<^verbatim>\<open>caches.open\<close> and
  hands the promise of the chain to \<^verbatim>\<open>waitUntil\<close>.
\<close>

definition install_listener_A :: "env \<Rightarrow> world \<Rightarrow> unit task \<times> world" where
  "install_listener_A env w =
     (case started (caches_open env STATIC_CACHE)
             (log Info ''Service Worker: Installing...'' JUndefined w) of
        (opened, w0) \<Rightarrow>
          (catch_p
             (then_p
                (then_p opened
                   (\<lambda>cache w1. cache_addAll env cache STATIC_FILES
                      (log Info ''Service Worker: Caching static files'' JUndefined w1)))
                (\<lambda>u w2. skipWaiting
                   (log Info ''Service Worker: Installation complete'' JUndefined w2)))
             (\<lambda>error w3.
                (Resolved (),
                 log Error ''Service Worker: Installation failed'' (JErr error) w3)),
           w0))"

text \<open>Lines 175-186: \<^verbatim>\<open>cleanupCaches()\<close> calls \<^verbatim>\<open>caches.keys\<close> and answers with the chain.\<close>

definition cleanupCaches :: "world \<Rightarrow> bool list task \<times> world" where
  "cleanupCaches w =
     (case started caches_keys w of
        (keys, w0) \<Rightarrow>
          (then_p keys
             (\<lambda>cacheNames.
                all_map caches_delete
                  (filter (\<lambda>cacheName. cacheName \<noteq> STATIC_CACHE \<and> cacheName \<noteq> DYNAMIC_CACHE)
                     cacheNames)),
           w0))"

text \<open>
  The install event of Policy A: the listener of lines 16-33, then the listener of lines
  189-191, which calls \<^verbatim>\<open>cleanupCaches()\<close> and hands nothing to \<^verbatim>\<open>waitUntil\<close>; then the
  chains of the two.
\<close>

definition install_A :: "env \<Rightarrow> unit task" where
  "install_A env w =
     (case install_listener_A env w of
        (installing, w1) \<Rightarrow>
          (case cleanupCaches w1 of
             (cleaning, w2) \<Rightarrow>
               (case installing w2 of
                  (r, w3) \<Rightarrow> (waitUntil [r], detached cleaning w3))))"

text \<open>
  Lines 43-49, the callback of \<^verbatim>\<open>cacheNames.map\<close>: it answers with the promise of
  \<^verbatim>\<open>caches.delete\<close>, or with undefined.
\<close>

definition delete_old_A :: "string \<Rightarrow> bool option task" where
  "delete_old_A cacheName w1 =
     (if cacheName \<noteq> STATIC_CACHE \<and> cacheName \<noteq> DYNAMIC_CACHE
      then then_p (caches_delete cacheName) (\<lambda>b w2. (Resolved (Some b), w2))
             (log Info ''Service Worker: Deleting old cache'' (JStr cacheName) w1)
      else (Resolved None, w1))"

text \<open>Lines 36-57.\<close>

definition activate_A :: "unit task" where
  "activate_A w =
     (case
        then_p
          (then_p caches_keys (all_map delete_old_A))
          (\<lambda>u w3. clients_claim (log Info ''Service Worker: Activation complete'' JUndefined w3))
          (log Info ''Service Worker: Activating...'' JUndefined w)
      of (r, w4) \<Rightarrow> (waitUntil [r], w4))"

text \<open>
  What a fetch listener leaves behind: nothing (the platform handles the request as if
  there were no worker), or the promise it handed to \<^verbatim>\<open>event.respondWith\<close>, which
  settles with a reference to a \<^verbatim>\<open>Response\<close> object, with undefined, or with an error.
\<close>

datatype fetch_result = PassThrough | RespondWith "nat option promise"

definition respondWith :: "nat option task \<Rightarrow> world \<Rightarrow> fetch_result \<times> world" where
  "respondWith p w = (case p w of (r, w') \<Rightarrow> (RespondWith r, w'))"

text \<open>
  Lines 92-99: the chain is started and left alone, and within it the promise of
  \<^verbatim>\<open>cache.put\<close> is not returned from the callback.
\<close>

definition cache_dynamic_A :: "env \<Rightarrow> request \<Rightarrow> nat \<Rightarrow> world \<Rightarrow> world" where
  "cache_dynamic_A env req responseToCache =
     detached
       (catch_p
          (then_p (caches_open env DYNAMIC_CACHE)
             (\<lambda>cache w1.
                (Resolved (),
                 detached (cache_put env cache (url req) responseToCache)
                   (log Info ''Service Worker: Caching dynamic content'' (JStr (url req)) w1))))
          (\<lambda>error w2.
             (Resolved (),
              log Error ''Service Worker: Failed to cache dynamic content'' (JErr error) w2)))"

text \<open>Lines 82-102. A reference that \<^verbatim>\<open>fetch\<close> answered with is never dangling.\<close>

definition on_network_A :: "env \<Rightarrow> request \<Rightarrow> nat \<Rightarrow> nat option task" where
  "on_network_A env req networkResponse w =
     (case deref w networkResponse of
        None \<Rightarrow> (Resolved None, w)
      | Some ob \<Rightarrow>
          if status (content ob) \<noteq> 200 \<or> rtype (content ob) \<noteq> Basic
          then (Resolved (Some networkResponse), w)
          else
            then_p (clone networkResponse)
              (\<lambda>responseToCache w1.
                 (Resolved (Some networkResponse), cache_dynamic_A env req responseToCache w1))
              w)"

text \<open>Lines 103-113.\<close>

definition on_failure_A :: "env \<Rightarrow> request \<Rightarrow> jserror \<Rightarrow> nat option task" where
  "on_failure_A env req error w =
     (let w1 = log Error ''Service Worker: Network fetch failed'' (JErr error) w in
      if destination req = ''document'' then caches_match (resolve env ''./index.html'') w1
      else (Rejected error, w1))"

text \<open>Lines 60-116.\<close>

definition fetch_A :: "env \<Rightarrow> request \<Rightarrow> world \<Rightarrow> fetch_result \<times> world" where
  "fetch_A env req w =
     (if http_method req \<noteq> ''GET'' then (PassThrough, w)
      else if \<not> startsWith (url req) (origin env) then (PassThrough, w)
      else
        respondWith
          (then_p (caches_match (url req))
             (\<lambda>cachedResponse w1.
                case cachedResponse of
                  Some c \<Rightarrow>
                    (Resolved (Some c),
                     log Info ''Service Worker: Serving from cache'' (JStr (url req)) w1)
                | None \<Rightarrow>
                    catch_p (then_p (net_fetch env (url req)) (on_network_A env req))
                      (on_failure_A env req) w1))
          w)"

text \<open>
  Lines 162-172. \<^verbatim>\<open>self.skipWaiting()\<close> is not awaited; an exception of
  \<^verbatim>\<open>event.ports[0].postMessage\<close> leaves the listener.
\<close>

definition message_A :: "message_event \<Rightarrow> world \<Rightarrow> world" where
  "message_A event w =
     (let w1 = log Info ''Service Worker: Message received'' (data event) w;
          w2 = (if has_type (data event) ''SKIP_WAITING'' then detached skipWaiting w1 else w1)
      in if has_type (data event) ''GET_VERSION''
         then detached (post_first (ports event) (JObj [(''version'', JStr CACHE_NAME_A)])) w2
         else w2)"

section \<open>Policy B: lines 193-414\<close>

definition CACHE_NAME_B :: string where
  "CACHE_NAME_B = ''better-yourself-offline-v1.0.0''"

text \<open>Lines 207-224.\<close>

definition install_listener_B :: "env \<Rightarrow> world \<Rightarrow> unit task \<times> world" where
  "install_listener_B env w =
     (case started (caches_open env STATIC_CACHE)
             (log Info ''Service Worker: Installing for offline use...'' JUndefined w) of
        (opened, w0) \<Rightarrow>
          (catch_p
             (then_p
                (then_p opened
                   (\<lambda>cache w1. cache_addAll env cache STATIC_FILES
                      (log Info ''Service Worker: Caching all files for offline use''
                         JUndefined w1)))
                (\<lambda>u w2. skipWaiting
                   (log Info ''Service Worker: Ready for offline use'' JUndefined w2)))
             (\<lambda>error w3.
                (Resolved (),
                 log Error ''Service Worker: Installation failed'' (JErr error) w3)),
           w0))"

text \<open>Lines 395-407: the second install listener, whose chain has no \<^verbatim>\<open>catch\<close>.\<close>

definition install_ready_B :: "env \<Rightarrow> world \<Rightarrow> unit task \<times> world" where
  "install_ready_B env w =
     (case started (caches_open env STATIC_CACHE) w of
        (opened, w0) \<Rightarrow>
          (then_p
             (then_p opened (\<lambda>cache. cache_addAll env cache STATIC_FILES))
             (\<lambda>u w2. skipWaiting
                (log Info ''Service Worker: App ready for offline use'' JUndefined w2)),
           w0))"

text \<open>
  The install event of Policy B: the two listeners, each calling \<^verbatim>\<open>caches.open\<close>, then
  the chains of the two. The event succeeds when both promises are fulfilled.
\<close>

definition install_B :: "env \<Rightarrow> unit task" where
  "install_B env w =
     (case install_listener_B env w of
        (installing, w1) \<Rightarrow>
          (case install_ready_B env w1 of
             (readying, w2) \<Rightarrow>
               (case installing w2 of
                  (r1, w3) \<Rightarrow>
                    (case readying w3 of
                       (r2, w4) \<Rightarrow> (waitUntil [r1, r2], w4)))))"

text \<open>Lines 234-240, the callback of \<^verbatim>\<open>cacheNames.map\<close>.\<close>

definition delete_old_B :: "string \<Rightarrow> bool option task" where
  "delete_old_B cacheName w1 =
     (if cacheName \<noteq> STATIC_CACHE
      then then_p (caches_delete cacheName) (\<lambda>b w2. (Resolved (Some b), w2))
             (log Info ''Service Worker: Deleting old cache'' (JStr cacheName) w1)
      else (Resolved None, w1))"

text \<open>Lines 227-248.\<close>

definition activate_B :: "unit task" where
  "activate_B w =
     (case
        then_p
          (then_p caches_keys (all_map delete_old_B))
          (\<lambda>u w3. clients_claim (log Info ''Service Worker: Offline mode activated'' JUndefined w3))
          (log Info ''Service Worker: Activating offline mode...'' JUndefined w)
      of (r, w4) \<Rightarrow> (waitUntil [r], w4))"

text \<open>Lines 284-291.\<close>

definition cache_new_B :: "env \<Rightarrow> request \<Rightarrow> nat \<Rightarrow> world \<Rightarrow> world" where
  "cache_new_B env req responseToCache =
     detached
       (catch_p
          (then_p (caches_open env STATIC_CACHE)
             (\<lambda>cache w1.
                (Resolved (),
                 detached (cache_put env cache (url req) responseToCache)
                   (log Info ''Service Worker: Caching new content'' (JStr (url req)) w1))))
          (\<lambda>error w2.
             (Resolved (),
              log Error ''Service Worker: Failed to cache new content'' (JErr error) w2)))"

text \<open>Lines 274-294.\<close>

definition on_network_B :: "env \<Rightarrow> request \<Rightarrow> nat \<Rightarrow> nat option task" where
  "on_network_B env req networkResponse w =
     (case deref w networkResponse of
        None \<Rightarrow> (Resolved None, w)
      | Some ob \<Rightarrow>
          if status (content ob) \<noteq> 200 \<or> rtype (content ob) \<noteq> Basic
          then (Resolved (Some networkResponse), w)
          else
            then_p (clone networkResponse)
              (\<lambda>responseToCache w1.
                 (Resolved (Some networkResponse), cache_new_B env req responseToCache w1))
              w)"

text \<open>Lines 306-333: the body of the offline page, line by line, and the page.\<close>

definition offline_html_lines :: "string list" where
  \<open>offline_html_lines =
     [
      '''',
      ''                    <!DOCTYPE html>'',
      ''                    <html>'',
      ''                    <head>'',
      ''                        <title>Better Yourself - Offline</title>'',
      ''                        <meta name="viewport" content="width=device-width, initial-scale=1.0">'',
      ''                        <style>'',
      ''                            body { font-family: Arial, sans-serif; text-align: center; padding: 50px; background: #f5f5f5; }'',
      ''                            .container { max-width: 400px; margin: 0 auto; padding: 40px; background: white; border-radius: 20px; box-shadow: 0 10px 30px rgba(0,0,0,0.1); }'',
      ''                            .icon { font-size: 4rem; margin-bottom: 20px; }'',
      ''                            h1 { color: #333; margin-bottom: 20px; }'',
      ''                            p { color: #666; line-height: 1.6; }'',
      ''                            button { background: linear-gradient(135deg, #667eea, #764ba2); color: white; border: none; padding: 12px 24px; border-radius: 8px; cursor: pointer; margin-top: 20px; }'',
      ''                        </style>'',
      ''                    </head>'',
      ''                    <body>'',
      ''                        <div class="container">'',
      ''                            <div class="icon">'' @ [CHR 0xF0, CHR 0x9F, CHR 0x8C, CHR 0x9F] @ ''</div>'',
      ''                            <h1>Better Yourself</h1>'',
      ''                            <p>You're currently offline, but your productivity app is ready to work!</p>'',
      ''                            <p>All your data is stored locally and will sync when you're back online.</p>'',
      ''                            <button onclick="window.location.reload()">Launch App</button>'',
      ''                        </div>'',
      ''                    </body>'',
      ''                    </html>'',
      ''                  ''
     ]\<close>

fun join_lines :: "string list \<Rightarrow> string" where
  "join_lines [] = []"
| "join_lines [l] = l"
| "join_lines (l # m # ls) = l @ CHR 0x0A # join_lines (m # ls)"

definition offline_page :: response where
  "offline_page =
     \<lparr>status = 200, rtype = Default,
      headers = [(''Content-Type'', ''text/html'')],
      body = join_lines offline_html_lines\<rparr>"

text \<open>Lines 295-339.\<close>

definition on_failure_B :: "env \<Rightarrow> request \<Rightarrow> jserror \<Rightarrow> nat option task" where
  "on_failure_B env req error w =
     (let w1 = log Info ''Service Worker: Network failed, app is fully offline'' JUndefined w in
      if destination req = ''document''
      then
        then_p (caches_match (resolve env ''./index.html''))
          (\<lambda>response w2.
             case response of
               Some r \<Rightarrow> (Resolved (Some r), w2)
             | None \<Rightarrow> (case alloc offline_page w2 of (p, w3) \<Rightarrow> (Resolved (Some p), w3)))
          w1
      else (Rejected error, w1))"

text \<open>Lines 251-342.\<close>

definition fetch_listener_B :: "env \<Rightarrow> request \<Rightarrow> world \<Rightarrow> fetch_result \<times> world" where
  "fetch_listener_B env req w =
     (if http_method req \<noteq> ''GET'' then (PassThrough, w)
      else if \<not> startsWith (url req) (origin env) then (PassThrough, w)
      else
        respondWith
          (then_p (caches_match (url req))
             (\<lambda>cachedResponse w1.
                case cachedResponse of
                  Some c \<Rightarrow>
                    (Resolved (Some c),
                     log Info ''Service Worker: Serving from cache (offline)'' (JStr (url req)) w1)
                | None \<Rightarrow>
                    catch_p (then_p (net_fetch env (url req)) (on_network_B env req))
                      (on_failure_B env req) w1))
          w)"

text \<open>Lines 410-414: the second fetch listener.\<close>

definition fetch_logger_B :: "env \<Rightarrow> request \<Rightarrow> world \<Rightarrow> world" where
  "fetch_logger_B env req w =
     (if includes_str (url req) (origin env)
      then log Info ''Service Worker: App running in offline mode'' JUndefined w
      else w)"

text \<open>
  The fetch event of Policy B. \<^verbatim>\<open>event.respondWith\<close> stops the propagation of the event
  at once, so the second listener runs only for a request the first one declined.
\<close>

definition fetch_B :: "env \<Rightarrow> request \<Rightarrow> world \<Rightarrow> fetch_result \<times> world" where
  "fetch_B env req w =
     (case fetch_listener_B env req w of
        (PassThrough, w1) \<Rightarrow> (PassThrough, fetch_logger_B env req w1)
      | (RespondWith r, w1) \<Rightarrow> (RespondWith r, w1))"

text \<open>Lines 367-392.\<close>

definition message_B :: "env \<Rightarrow> message_event \<Rightarrow> world \<Rightarrow> world" where
  "message_B env event w =
     (let w1 = log Info ''Service Worker: Message received'' (data event) w;
          w2 = (if has_type (data event) ''SKIP_WAITING'' then detached skipWaiting w1 else w1)
      in case
           (if has_type (data event) ''GET_VERSION''
            then post_first (ports event)
                   (JObj [(''version'', JStr CACHE_NAME_B), (''offline'', JBool True),
                          (''mode'', JStr ''offline-first'')]) w2
            else (Resolved (), w2))
         of
           (Rejected e, w3) \<Rightarrow> w3\<lparr>uncaught := uncaught w3 @ [e]\<rparr>
         | (Resolved u, w3) \<Rightarrow>
             if has_type (data event) ''CACHE_STATUS''
             then
               detached
                 (then_p (caches_match (resolve env ''./index.html''))
                    (\<lambda>response.
                       post_first (ports event)
                         (JObj [(''cached'', JBool (response \<noteq> None)), (''ready'', JBool True),
                                (''mode'', JStr ''offline'')])))
                 w3
             else w3)"

section \<open>Requests, environments and worlds to run the listeners on\<close>

text \<open>
  What the guard of the fetch listeners lets through (lines 62-69 and 253-260): a GET
  request whose URL starts with the text of the worker's origin.
\<close>

definition intercepted :: "env \<Rightarrow> request \<Rightarrow> bool" where
  "intercepted env req = (http_method req = ''GET'' \<and> startsWith (url req) (origin env))"

text \<open>A request to the worker's own origin.\<close>

definition same_origin :: "env \<Rightarrow> request \<Rightarrow> bool" where
  "same_origin env req = (origin_of (url req) = origin env)"

definition is_net :: "call \<Rightarrow> bool" where
  "is_net c = (case c of NetFetch u \<Rightarrow> True | _ \<Rightarrow> False)"

definition is_put :: "call \<Rightarrow> bool" where
  "is_put c = (case c of CachePut n u \<Rightarrow> True | _ \<Rightarrow> False)"

text \<open>The counter of network calls, and the calls on the cache storage.\<close>

definition network_calls :: "world \<Rightarrow> nat" where
  "network_calls w = length (filter is_net (calls w))"

definition is_storage :: "call \<Rightarrow> bool" where
  "is_storage c =
     (case c of
        CachesMatch u \<Rightarrow> True
      | CachesOpen n \<Rightarrow> True
      | CachesKeys \<Rightarrow> True
      | CachesDelete n \<Rightarrow> True
      | CacheAddAll n us \<Rightarrow> True
      | CachePut n u \<Rightarrow> True
      | _ \<Rightarrow> False)"

definition storage_calls :: "world \<Rightarrow> call list" where
  "storage_calls w = filter is_storage (calls w)"

text \<open>The names of the generations each policy keeps.\<close>

definition current_A :: "string \<Rightarrow> bool" where
  "current_A n = (n = STATIC_CACHE \<or> n = DYNAMIC_CACHE)"

definition current_B :: "string \<Rightarrow> bool" where
  "current_B n = (n = STATIC_CACHE)"

definition world0 :: world where
  "world0 = \<lparr>caches = [], objs = [], calls = [], console = [], uncaught = [], posted = []\<rparr>"

definition page :: response where
  "page = \<lparr>status = 200, rtype = Basic, headers = [(''content-type'', ''text/html'')],
           body = ''<html></html>''\<rparr>"

definition not_found :: response where
  "not_found = \<lparr>status = 404, rtype = Basic, headers = [], body = ''Not Found''\<rparr>"

definition fetch_failed :: jserror where
  "fetch_failed = TypeError ''Failed to fetch''"

definition env_online :: env where
  "env_online =
     \<lparr>origin = ''https://app.example'', base = ''https://app.example/'',
      net = (\<lambda>u. Inr page), open_err = (\<lambda>n. None), put_err = (\<lambda>n u. None)\<rparr>"

definition env_offline :: env where
  "env_offline = env_online\<lparr>net := (\<lambda>u. Inl fetch_failed)\<rparr>"

text \<open>A deployment whose \<^verbatim>\<open>manifest.json\<close> is missing on the server.\<close>

definition env_no_manifest :: env where
  "env_no_manifest =
     env_online\<lparr>net := (\<lambda>u. if u = ''https://app.example/manifest.json'' then Inr not_found
                               else Inr page)\<rparr>"

text \<open>A storage that is full: it opens caches and refuses new entries.\<close>

definition env_full :: env where
  "env_full = env_online\<lparr>put_err := (\<lambda>n u. Some (DOMException ''QuotaExceededError''))\<rparr>"

definition nav_req :: request where
  "nav_req = \<lparr>http_method = ''GET'', url = ''https://app.example/index.html'',
              destination = ''document''\<rparr>"

definition script_req :: request where
  "script_req = \<lparr>http_method = ''GET'', url = ''https://app.example/app.js'',
                 destination = ''script''\<rparr>"

definition settings_req :: request where
  "settings_req = \<lparr>http_method = ''GET'', url = ''https://app.example/settings'',
                   destination = ''document''\<rparr>"

text \<open>A storage whose static cache holds the root document.\<close>

definition world_cached :: world where
  "world_cached =
     world0\<lparr>caches := [(STATIC_CACHE, [(''https://app.example/index.html'', page)])]\<rparr>"

text \<open>A storage with a generation of an earlier deployment beside the static cache.\<close>

definition world_old :: world where
  "world_old =
     world0\<lparr>caches := [(''v-old'', [(''https://app.example/app.js'', page)]),
                        (STATIC_CACHE, [])]\<rparr>"

definition version_event :: message_event where
  "version_event = \<lparr>data = JObj [(''type'', JStr ''GET_VERSION'')], ports = [7]\<rparr>"

definition status_event :: message_event where
  "status_event = \<lparr>data = JObj [(''type'', JStr ''CACHE_STATUS'')], ports = [7]\<rparr>"

text \<open>
  A worker served from port 80 of the local host, and a request of its page to a server
  on port 8080 of that host, which answers with a CORS response.
\<close>

definition api_response :: response where
  "api_response = \<lparr>status = 200, rtype = Cors, headers = [], body = ''{}''\<rparr>"

definition env_local :: env where
  "env_local =
     \<lparr>origin = ''http://localhost'', base = ''http://localhost/'',
      net = (\<lambda>u. Inr api_response), open_err = (\<lambda>n. None), put_err = (\<lambda>n u. None)\<rparr>"

definition api_req :: request where
  "api_req = \<lparr>http_method = ''GET'', url = ''http://localhost:8080/api/data'',
              destination = []\<rparr>"

text \<open>\<^verbatim>\<open>o[k]\<close> for an object \<open>o\<close> of the message channel.\<close>

fun field :: "jsval \<Rightarrow> string \<Rightarrow> jsval option" where
  "field (JObj fs) k = map_of fs k"
| "field _ k = None"

section \<open>Properties\<close>

lemmas platform_defs =
  then_p_def catch_p_def detached_def started_def no_fragment_def log_def called_def skipWaiting_def clients_claim_def
  post_first_def resolve_def alloc_def deref_def caches_match_def caches_open_def
  caches_keys_def caches_delete_def cache_store_def storage_store_def cache_put_def
  clone_def net_fetch_def cache_addAll_def respondWith_def

lemmas example_defs =
  world0_def page_def not_found_def fetch_failed_def env_online_def env_offline_def
  env_no_manifest_def env_full_def nav_req_def script_req_def

lemmas example_worlds = world_cached_def world_old_def version_event_def status_event_def
  settings_req_def

subsection \<open>The platform\<close>

lemma startsWith_self: "startsWith (p @ s) p"
  by (induction p) auto

lemma startsWith_includes: "startsWith s p \<Longrightarrow> includes_str s p"
  by (cases s; cases p) auto

lemma storage_lookup_outside:
  "storage_lookup cs u = Some r \<Longrightarrow> storage_lookup (filter (\<lambda>nc. P (fst nc)) cs) u = None \<Longrightarrow>
     \<exists>n c. (n, c) \<in> set cs \<and> \<not> P n \<and> cache_match c u = Some r"
  by (induction cs u rule: storage_lookup.induct) (auto split: option.splits if_splits)

lemma storage_lookup_any:
  "(n, c) \<in> set cs \<Longrightarrow> cache_match c u = Some r \<Longrightarrow> \<exists>r'. storage_lookup cs u = Some r'"
  by (induction cs u rule: storage_lookup.induct) (auto split: option.splits)

text \<open>The lookup of a URL with a fragment finds the entry stored without one.\<close>

lemma lookup_ignores_fragment:
  "storage_lookup (caches world_cached) ''https://app.example/index.html#top'' = Some page"
  by (simp add: world_cached_def world0_def no_fragment_def)

text \<open>An entry stored under the very URL of the request matches it.\<close>

lemma map_of_cache_match:
  "map_of c u = Some r \<Longrightarrow> \<exists>r'. cache_match c u = Some r'"
  by (induction c u rule: cache_match.induct) (auto split: if_splits)

lemma has_type_unique: "has_type d s \<Longrightarrow> has_type d t \<Longrightarrow> s = t"
  by (cases d) auto

text \<open>
  A \<^verbatim>\<open>Promise.all\<close> over callbacks that delete the old names and skip the others: the
  caches of the old names among \<open>ns\<close> are gone, one delete was called for each.
\<close>

lemma all_map_purge:
  assumes f: "\<And>n w. f n w =
      (if old n
       then (Resolved (Some (n \<in> set (map fst (caches w)))),
             w\<lparr>caches := filter (\<lambda>nc. fst nc \<noteq> n) (caches w),
               calls := calls w @ [CachesDelete n],
               console := console w @ [(Info, m, JStr n)]\<rparr>)
       else (Resolved None, w))"
  shows "\<exists>vs. all_map f ns w =
     (Resolved vs,
      w\<lparr>caches := filter (\<lambda>nc. \<not> (old (fst nc) \<and> fst nc \<in> set ns)) (caches w),
        calls := calls w @ map CachesDelete (filter old ns),
        console := console w @ map (\<lambda>n. (Info, m, JStr n)) (filter old ns)\<rparr>)"
proof (induction ns arbitrary: w)
  case Nil
  show ?case by simp
next
  case (Cons n ns)
  show ?case
  proof (cases "old n")
    case True
    let ?w1 = "w\<lparr>caches := filter (\<lambda>nc. fst nc \<noteq> n) (caches w),
           calls := calls w @ [CachesDelete n],
           console := console w @ [(Info, m, JStr n)]\<rparr>"
    have step: "f n w = (Resolved (Some (n \<in> set (map fst (caches w)))), ?w1)"
      using True by (simp add: f)
    obtain vs where rest: "all_map f ns ?w1 =
        (Resolved vs,
         ?w1\<lparr>caches := filter (\<lambda>nc. \<not> (old (fst nc) \<and> fst nc \<in> set ns)) (caches ?w1),
           calls := calls ?w1 @ map CachesDelete (filter old ns),
           console := console ?w1 @ map (\<lambda>n. (Info, m, JStr n)) (filter old ns)\<rparr>)"
      using Cons.IH [of ?w1] by blast
    have flt: "filter (\<lambda>nc. \<not> (old (fst nc) \<and> fst nc \<in> set ns))
          (filter (\<lambda>nc. fst nc \<noteq> n) (caches w))
        = filter (\<lambda>nc. \<not> (old (fst nc) \<and> fst nc \<in> set (n # ns))) (caches w)"
      using True by (auto intro: filter_cong)
    show ?thesis
      using True rest flt by (simp add: step)
  next
    case False
    have step: "f n w = (Resolved None, w)"
      using False by (simp add: f)
    obtain vs where rest: "all_map f ns w =
        (Resolved vs,
         w\<lparr>caches := filter (\<lambda>nc. \<not> (old (fst nc) \<and> fst nc \<in> set ns)) (caches w),
           calls := calls w @ map CachesDelete (filter old ns),
           console := console w @ map (\<lambda>n. (Info, m, JStr n)) (filter old ns)\<rparr>)"
      using Cons.IH [of w] by blast
    have flt: "filter (\<lambda>nc. \<not> (old (fst nc) \<and> fst nc \<in> set ns)) (caches w)
        = filter (\<lambda>nc. \<not> (old (fst nc) \<and> fst nc \<in> set (n # ns))) (caches w)"
      using False by (auto intro: filter_cong)
    show ?thesis
      using False rest flt by (simp add: step)
  qed
qed

subsection \<open>Activation\<close>

lemma activate_A_run:
  "activate_A w =
     (Resolved (),
      w\<lparr>caches := filter (\<lambda>nc. current_A (fst nc)) (caches w),
        calls := calls w @ [CachesKeys]
                 @ map CachesDelete (filter (\<lambda>n. \<not> current_A n) (map fst (caches w)))
                 @ [ClientsClaim],
        console := console w @ [(Info, ''Service Worker: Activating...'', JUndefined)]
                   @ map (\<lambda>n. (Info, ''Service Worker: Deleting old cache'', JStr n))
                       (filter (\<lambda>n. \<not> current_A n) (map fst (caches w)))
                   @ [(Info, ''Service Worker: Activation complete'', JUndefined)]\<rparr>)"
proof -
  let ?w0 = "called CachesKeys (log Info ''Service Worker: Activating...'' JUndefined w)"
  let ?ns = "map fst (caches w)"
  have f: "\<And>n w. delete_old_A n w =
      (if \<not> current_A n
       then (Resolved (Some (n \<in> set (map fst (caches w)))),
             w\<lparr>caches := filter (\<lambda>nc. fst nc \<noteq> n) (caches w),
               calls := calls w @ [CachesDelete n],
               console := console w @ [(Info, ''Service Worker: Deleting old cache'', JStr n)]\<rparr>)
       else (Resolved None, w))"
    by (simp add: delete_old_A_def current_A_def then_p_def caches_delete_def log_def called_def)
  obtain vs where run: "all_map delete_old_A ?ns ?w0 =
     (Resolved vs,
      ?w0\<lparr>caches := filter (\<lambda>nc. \<not> (\<not> current_A (fst nc) \<and> fst nc \<in> set ?ns)) (caches ?w0),
        calls := calls ?w0 @ map CachesDelete (filter (\<lambda>n. \<not> current_A n) ?ns),
        console := console ?w0 @
          map (\<lambda>n. (Info, ''Service Worker: Deleting old cache'', JStr n))
            (filter (\<lambda>n. \<not> current_A n) ?ns)\<rparr>)"
    using all_map_purge [of delete_old_A "\<lambda>n. \<not> current_A n", OF f] by blast
  have flt: "filter (\<lambda>nc. \<not> (\<not> current_A (fst nc) \<and> fst nc \<in> set ?ns)) (caches w)
      = filter (\<lambda>nc. current_A (fst nc)) (caches w)"
    by (rule filter_cong) auto
  have keys: "caches_keys (log Info ''Service Worker: Activating...'' JUndefined w)
      = (Resolved ?ns, ?w0)"
    by (simp add: caches_keys_def log_def called_def)
  show ?thesis
    apply (simp only: activate_A_def then_p_def keys prod.case promise.case run)
    using flt apply (simp add: clients_claim_def called_def log_def)
    done
qed

lemma activate_B_run:
  "activate_B w =
     (Resolved (),
      w\<lparr>caches := filter (\<lambda>nc. current_B (fst nc)) (caches w),
        calls := calls w @ [CachesKeys]
                 @ map CachesDelete (filter (\<lambda>n. \<not> current_B n) (map fst (caches w)))
                 @ [ClientsClaim],
        console := console w @ [(Info, ''Service Worker: Activating offline mode...'', JUndefined)]
                   @ map (\<lambda>n. (Info, ''Service Worker: Deleting old cache'', JStr n))
                       (filter (\<lambda>n. \<not> current_B n) (map fst (caches w)))
                   @ [(Info, ''Service Worker: Offline mode activated'', JUndefined)]\<rparr>)"
proof -
  let ?w0 = "called CachesKeys (log Info ''Service Worker: Activating offline mode...'' JUndefined w)"
  let ?ns = "map fst (caches w)"
  have f: "\<And>n w. delete_old_B n w =
      (if \<not> current_B n
       then (Resolved (Some (n \<in> set (map fst (caches w)))),
             w\<lparr>caches := filter (\<lambda>nc. fst nc \<noteq> n) (caches w),
               calls := calls w @ [CachesDelete n],
               console := console w @ [(Info, ''Service Worker: Deleting old cache'', JStr n)]\<rparr>)
       else (Resolved None, w))"
    by (simp add: delete_old_B_def current_B_def then_p_def caches_delete_def log_def called_def)
  obtain vs where run: "all_map delete_old_B ?ns ?w0 =
     (Resolved vs,
      ?w0\<lparr>caches := filter (\<lambda>nc. \<not> (\<not> current_B (fst nc) \<and> fst nc \<in> set ?ns)) (caches ?w0),
        calls := calls ?w0 @ map CachesDelete (filter (\<lambda>n. \<not> current_B n) ?ns),
        console := console ?w0 @
          map (\<lambda>n. (Info, ''Service Worker: Deleting old cache'', JStr n))
            (filter (\<lambda>n. \<not> current_B n) ?ns)\<rparr>)"
    using all_map_purge [of delete_old_B "\<lambda>n. \<not> current_B n", OF f] by blast
  have flt: "filter (\<lambda>nc. \<not> (\<not> current_B (fst nc) \<and> fst nc \<in> set ?ns)) (caches w)
      = filter (\<lambda>nc. current_B (fst nc)) (caches w)"
    by (rule filter_cong) auto
  have keys: "caches_keys (log Info ''Service Worker: Activating offline mode...'' JUndefined w)
      = (Resolved ?ns, ?w0)"
    by (simp add: caches_keys_def log_def called_def)
  show ?thesis
    apply (simp only: activate_B_def then_p_def keys prod.case promise.case run)
    using flt apply (simp add: clients_claim_def called_def log_def)
    done
qed

text \<open>
  C5. Whatever the cache storage holds, activation succeeds and keeps exactly the caches
  with a current name (the static one, and under Policy A the dynamic one), entries
  untouched: it calls one delete for each other name and none remains. Run a second
  time right after, it succeeds again, deletes nothing and leaves the storage as it
  was. Deleting a cache twice leaves what deleting it once leaves.
\<close>

theorem activate_keeps_current_generations:
  "fst (activate_A w) = Resolved ()
   \<and> caches (snd (activate_A w)) = filter (\<lambda>nc. current_A (fst nc)) (caches w)
   \<and> filter (\<lambda>n. \<not> current_A n) (map fst (caches (snd (activate_A w)))) = []
   \<and> calls (snd (activate_A w)) =
       calls w @ [CachesKeys]
         @ map CachesDelete (filter (\<lambda>n. \<not> current_A n) (map fst (caches w))) @ [ClientsClaim]
   \<and> fst (activate_A (snd (activate_A w))) = Resolved ()
   \<and> caches (snd (activate_A (snd (activate_A w)))) = caches (snd (activate_A w))
   \<and> calls (snd (activate_A (snd (activate_A w)))) =
       calls (snd (activate_A w)) @ [CachesKeys, ClientsClaim]
   \<and> fst (activate_B w) = Resolved ()
   \<and> caches (snd (activate_B w)) = filter (\<lambda>nc. current_B (fst nc)) (caches w)
   \<and> filter (\<lambda>n. \<not> current_B n) (map fst (caches (snd (activate_B w)))) = []
   \<and> calls (snd (activate_B w)) =
       calls w @ [CachesKeys]
         @ map CachesDelete (filter (\<lambda>n. \<not> current_B n) (map fst (caches w))) @ [ClientsClaim]
   \<and> fst (activate_B (snd (activate_B w))) = Resolved ()
   \<and> caches (snd (activate_B (snd (activate_B w)))) = caches (snd (activate_B w))
   \<and> calls (snd (activate_B (snd (activate_B w)))) =
       calls (snd (activate_B w)) @ [CachesKeys, ClientsClaim]
   \<and> caches (snd (caches_delete n (snd (caches_delete n w)))) = caches (snd (caches_delete n w))"
proof -
  have none: "filter (\<lambda>n. \<not> P n) (map fst (filter (\<lambda>nc. P (fst nc)) cs)) = []"
    for P :: "string \<Rightarrow> bool" and cs :: "(string \<times> cache) list"
    by (induction cs) auto
  have twice: "filter (\<lambda>nc. fst nc \<noteq> n) (filter (\<lambda>nc. fst nc \<noteq> n) (caches w))
      = filter (\<lambda>nc. fst nc \<noteq> n) (caches w)"
    by simp
  show ?thesis
    by (simp add: activate_A_run activate_B_run none caches_delete_def called_def)
qed

theorem activate_keeps_current_generations_witness:
  "caches (snd (activate_A world_old)) = [(STATIC_CACHE, [])]
   \<and> caches (snd (activate_B world_old)) = [(STATIC_CACHE, [])]
   \<and> calls (snd (activate_B world_old)) = [CachesKeys, CachesDelete ''v-old'', ClientsClaim]
   \<and> calls (snd (activate_B (snd (activate_B world_old)))) =
       [CachesKeys, CachesDelete ''v-old'', ClientsClaim, CachesKeys, ClientsClaim]"
  using activate_keeps_current_generations [of world_old]
  by (simp add: world_old_def world0_def current_A_def current_B_def STATIC_CACHE_def
      DYNAMIC_CACHE_def)

subsection \<open>A request that the storage holds\<close>

lemma fetch_A_hit:
  assumes "intercepted env req" and "storage_lookup (caches w) (url req) = Some r"
  shows "fetch_A env req w =
     (RespondWith (Resolved (Some (length (objs w)))),
      w\<lparr>objs := objs w @ [\<lparr>content = r, bodyUsed = False\<rparr>],
        calls := calls w @ [CachesMatch (url req)],
        console := console w @
          [(Info, ''Service Worker: Serving from cache'', JStr (url req))]\<rparr>)"
  using assms
  by (simp add: fetch_A_def intercepted_def respondWith_def then_p_def caches_match_def
      called_def alloc_def log_def)

lemma fetch_B_hit:
  assumes "intercepted env req" and "storage_lookup (caches w) (url req) = Some r"
  shows "fetch_B env req w =
     (RespondWith (Resolved (Some (length (objs w)))),
      w\<lparr>objs := objs w @ [\<lparr>content = r, bodyUsed = False\<rparr>],
        calls := calls w @ [CachesMatch (url req)],
        console := console w @
          [(Info, ''Service Worker: Serving from cache (offline)'', JStr (url req))]\<rparr>)"
  using assms
  by (simp add: fetch_B_def fetch_listener_B_def intercepted_def respondWith_def then_p_def
      caches_match_def called_def alloc_def log_def)

text \<open>
  C3. When the lookup of an intercepted request in the storage succeeds, both policies
  answer with a \<^verbatim>\<open>Response\<close> object that holds the stored entry, its body unread, and the
  counter of network calls stands where it stood.
\<close>

theorem cache_hit_answers_from_store:
  assumes "intercepted env req" and "storage_lookup (caches w) (url req) = Some r"
  shows "fst (fetch_A env req w) = RespondWith (Resolved (Some (length (objs w))))
    \<and> deref (snd (fetch_A env req w)) (length (objs w)) = Some \<lparr>content = r, bodyUsed = False\<rparr>
    \<and> network_calls (snd (fetch_A env req w)) = network_calls w
    \<and> fst (fetch_B env req w) = RespondWith (Resolved (Some (length (objs w))))
    \<and> deref (snd (fetch_B env req w)) (length (objs w)) = Some \<lparr>content = r, bodyUsed = False\<rparr>
    \<and> network_calls (snd (fetch_B env req w)) = network_calls w"
  by (simp add: fetch_A_hit [OF assms] fetch_B_hit [OF assms] deref_def network_calls_def
      is_net_def)

theorem cache_hit_answers_from_store_witness:
  "intercepted env_offline nav_req
   \<and> storage_lookup (caches world_cached) (url nav_req) = Some page
   \<and> fst (fetch_A env_offline nav_req world_cached) = RespondWith (Resolved (Some 0))
   \<and> deref (snd (fetch_A env_offline nav_req world_cached)) 0
       = Some \<lparr>content = page, bodyUsed = False\<rparr>
   \<and> network_calls (snd (fetch_A env_offline nav_req world_cached)) = 0
   \<and> fst (fetch_B env_offline nav_req world_cached) = RespondWith (Resolved (Some 0))
   \<and> network_calls (snd (fetch_B env_offline nav_req world_cached)) = 0"
proof -
  have h1: "intercepted env_offline nav_req"
    by (simp add: intercepted_def env_offline_def env_online_def nav_req_def)
  have h2: "storage_lookup (caches world_cached) (url nav_req) = Some page"
    by (simp add: world_cached_def world0_def nav_req_def)
  have h3: "length (objs world_cached) = 0" "network_calls world_cached = 0"
    by (simp_all add: world_cached_def world0_def network_calls_def)
  show ?thesis
    using h1 h2 cache_hit_answers_from_store [OF h1 h2] by (simp add: h3)
qed

text \<open>
  C10. The lookup goes through every cache of the storage, whatever its name: when any
  cache holds an entry that matches the intercepted request, both policies answer with
  a stored entry and make no network call; and when none of the caches with a current
  name holds one, the entry they answer with is that of a cache whose name is not
  current.
\<close>

theorem lookup_spans_all_generations:
  assumes "intercepted env req" and "(n, c) \<in> set (caches w)"
    and "cache_match c (url req) = Some r"
  shows "\<exists>r'. storage_lookup (caches w) (url req) = Some r'
    \<and> fst (fetch_A env req w) = RespondWith (Resolved (Some (length (objs w))))
    \<and> deref (snd (fetch_A env req w)) (length (objs w)) = Some \<lparr>content = r', bodyUsed = False\<rparr>
    \<and> network_calls (snd (fetch_A env req w)) = network_calls w
    \<and> fst (fetch_B env req w) = RespondWith (Resolved (Some (length (objs w))))
    \<and> deref (snd (fetch_B env req w)) (length (objs w)) = Some \<lparr>content = r', bodyUsed = False\<rparr>
    \<and> network_calls (snd (fetch_B env req w)) = network_calls w
    \<and> (storage_lookup (filter (\<lambda>nc. current_A (fst nc)) (caches w)) (url req) = None \<longrightarrow>
         (\<exists>n' c'. (n', c') \<in> set (caches w) \<and> \<not> current_A n' \<and> cache_match c' (url req) = Some r'))
    \<and> (storage_lookup (filter (\<lambda>nc. current_B (fst nc)) (caches w)) (url req) = None \<longrightarrow>
         (\<exists>n' c'. (n', c') \<in> set (caches w) \<and> \<not> current_B n' \<and> cache_match c' (url req) = Some r'))"
proof -
  obtain r' where hit: "storage_lookup (caches w) (url req) = Some r'"
    using storage_lookup_any [OF assms(2,3)] by blast
  have A: "fetch_A env req w =
     (RespondWith (Resolved (Some (length (objs w)))),
      w\<lparr>objs := objs w @ [\<lparr>content = r', bodyUsed = False\<rparr>],
        calls := calls w @ [CachesMatch (url req)],
        console := console w @
          [(Info, ''Service Worker: Serving from cache'', JStr (url req))]\<rparr>)"
    by (rule fetch_A_hit [OF assms(1) hit])
  have B: "fetch_B env req w =
     (RespondWith (Resolved (Some (length (objs w)))),
      w\<lparr>objs := objs w @ [\<lparr>content = r', bodyUsed = False\<rparr>],
        calls := calls w @ [CachesMatch (url req)],
        console := console w @
          [(Info, ''Service Worker: Serving from cache (offline)'', JStr (url req))]\<rparr>)"
    by (rule fetch_B_hit [OF assms(1) hit])
  have outside: "storage_lookup (filter (\<lambda>nc. P (fst nc)) (caches w)) (url req) = None \<longrightarrow>
      (\<exists>n' c'. (n', c') \<in> set (caches w) \<and> \<not> P n' \<and> cache_match c' (url req) = Some r')"
    for P :: "string \<Rightarrow> bool"
    using storage_lookup_outside [OF hit] by blast
  show ?thesis
    using hit outside [of current_A] outside [of current_B]
    by (simp add: A B deref_def network_calls_def is_net_def)
qed

theorem lookup_spans_all_generations_witness:
  "intercepted env_offline script_req
   \<and> (''v-old'', [(''https://app.example/app.js'', page)]) \<in> set (caches world_old)
   \<and> \<not> current_A ''v-old'' \<and> \<not> current_B ''v-old''
   \<and> storage_lookup (filter (\<lambda>nc. current_A (fst nc)) (caches world_old)) (url script_req) = None
   \<and> fst (fetch_A env_offline script_req world_old) = RespondWith (Resolved (Some 0))
   \<and> deref (snd (fetch_A env_offline script_req world_old)) 0
       = Some \<lparr>content = page, bodyUsed = False\<rparr>
   \<and> network_calls (snd (fetch_A env_offline script_req world_old)) = 0
   \<and> fst (fetch_B env_offline script_req world_old) = RespondWith (Resolved (Some 0))
   \<and> network_calls (snd (fetch_B env_offline script_req world_old)) = 0"
proof -
  have h1: "intercepted env_offline script_req"
    by (simp add: intercepted_def env_offline_def env_online_def script_req_def)
  have h2: "(''v-old'', [(''https://app.example/app.js'', page)]) \<in> set (caches world_old)"
    by (simp add: world_old_def world0_def)
  have h3: "cache_match [(''https://app.example/app.js'', page)] (url script_req) = Some page"
    by (simp add: script_req_def)
  have h4: "length (objs world_old) = 0" "network_calls world_old = 0"
    "storage_lookup (caches world_old) (url script_req) = Some page"
    "storage_lookup (filter (\<lambda>nc. current_A (fst nc)) (caches world_old)) (url script_req) = None"
    "\<not> current_A ''v-old''" "\<not> current_B ''v-old''"
    by (simp_all add: world_old_def world0_def network_calls_def script_req_def current_A_def
        current_B_def STATIC_CACHE_def DYNAMIC_CACHE_def)
  show ?thesis
    using h1 h2 lookup_spans_all_generations [OF h1 h2 h3] by (simp add: h4)
qed

subsection \<open>A navigation while the network is down\<close>

lemma fetch_B_offline:
  assumes "intercepted env req" and "destination req = ''document''"
    and "storage_lookup (caches w) (url req) = None"
    and "net env (url req) = Inl e"
    and "storage_lookup (caches w) (resolve env ''./index.html'') = None"
  shows "fetch_B env req w =
     (RespondWith (Resolved (Some (length (objs w)))),
      w\<lparr>objs := objs w @ [\<lparr>content = offline_page, bodyUsed = False\<rparr>],
        calls := calls w @ [CachesMatch (url req), NetFetch (url req),
                            CachesMatch (resolve env ''./index.html'')],
        console := console w @
          [(Info, ''Service Worker: Network failed, app is fully offline'', JUndefined)]\<rparr>)"
  using assms
  by (simp add: fetch_B_def fetch_listener_B_def
      intercepted_def respondWith_def then_p_def catch_p_def caches_match_def net_fetch_def
      on_failure_B_def called_def alloc_def log_def)

lemma fetch_A_offline:
  assumes "intercepted env req" and "destination req = ''document''"
    and "storage_lookup (caches w) (url req) = None"
    and "net env (url req) = Inl e"
  shows "fetch_A env req w =
     (case storage_lookup (caches w) (resolve env ''./index.html'') of
        None \<Rightarrow>
          (RespondWith (Resolved None),
           w\<lparr>calls := calls w @ [CachesMatch (url req), NetFetch (url req),
                            CachesMatch (resolve env ''./index.html'')],
             console := console w @
               [(Error, ''Service Worker: Network fetch failed'', JErr e)]\<rparr>)
      | Some r \<Rightarrow>
          (RespondWith (Resolved (Some (length (objs w)))),
           w\<lparr>objs := objs w @ [\<lparr>content = r, bodyUsed = False\<rparr>],
             calls := calls w @ [CachesMatch (url req), NetFetch (url req),
                            CachesMatch (resolve env ''./index.html'')],
             console := console w @
               [(Error, ''Service Worker: Network fetch failed'', JErr e)]\<rparr>))"
  using assms
  by (simp add: fetch_A_def intercepted_def respondWith_def then_p_def catch_p_def
      caches_match_def net_fetch_def on_failure_A_def called_def alloc_def log_def
      split: option.splits)

text \<open>
  What the offline page of lines 306-331 holds: its 1641 bytes begin with a line break
  and the indented \<^verbatim>\<open><!DOCTYPE html>\<close>, and the title, the heading and the closing tag
  of the document are in it.
\<close>

lemma offline_page_markup:
  "startsWith (body offline_page) (CHR 0x0A # ''                    <!DOCTYPE html>'')"
  "includes_str (body offline_page) ''<title>Better Yourself - Offline</title>''"
  "includes_str (body offline_page) ''<h1>Better Yourself</h1>''"
  "includes_str (body offline_page) ''</html>''"
  "length (body offline_page) = 1641"
  by (simp_all add: offline_page_def offline_html_lines_def)

text \<open>
  C2. Under Policy B, when an intercepted navigation request is not in the storage, the
  network fails and the root document \<^verbatim>\<open>./index.html\<close> is not in the storage either,
  the promise handed to \<^verbatim>\<open>respondWith\<close> is fulfilled, not rejected: with a new response
  of status 200 and content type \<^verbatim>\<open>text/html\<close> whose body is the literal HTML document
  of lines 306-331, from \<^verbatim>\<open><!DOCTYPE html>\<close> and its title to \<^verbatim>\<open></html>\<close>.
\<close>

theorem offline_page_when_root_missing:
  assumes "intercepted env req" and "destination req = ''document''"
    and "storage_lookup (caches w) (url req) = None"
    and "net env (url req) = Inl e"
    and "storage_lookup (caches w) (resolve env ''./index.html'') = None"
  shows "fst (fetch_B env req w) = RespondWith (Resolved (Some (length (objs w))))
    \<and> fst (fetch_B env req w) \<noteq> RespondWith (Rejected e)
    \<and> deref (snd (fetch_B env req w)) (length (objs w))
        = Some \<lparr>content = offline_page, bodyUsed = False\<rparr>
    \<and> map_of (headers offline_page) ''Content-Type'' = Some ''text/html''
    \<and> status offline_page = 200
    \<and> body offline_page = join_lines offline_html_lines
    \<and> startsWith (body offline_page) (CHR 0x0A # ''                    <!DOCTYPE html>'')
    \<and> includes_str (body offline_page) ''<title>Better Yourself - Offline</title>''
    \<and> includes_str (body offline_page) ''<h1>Better Yourself</h1>''
    \<and> includes_str (body offline_page) ''</html>''
    \<and> length (body offline_page) = 1641"
proof -
  have page: "map_of (headers offline_page) ''Content-Type'' = Some ''text/html''"
    "status offline_page = 200" "join_lines offline_html_lines = body offline_page"
    by (simp_all add: offline_page_def)
  show ?thesis
    by (simp add: fetch_B_offline [OF assms] deref_def page offline_page_markup)
qed

theorem offline_page_when_root_missing_witness:
  "intercepted env_offline nav_req \<and> destination nav_req = ''document''
   \<and> storage_lookup (caches world0) (url nav_req) = None
   \<and> net env_offline (url nav_req) = Inl fetch_failed
   \<and> storage_lookup (caches world0) (resolve env_offline ''./index.html'') = None
   \<and> fst (fetch_B env_offline nav_req world0) = RespondWith (Resolved (Some 0))
   \<and> deref (snd (fetch_B env_offline nav_req world0)) 0
       = Some \<lparr>content = offline_page, bodyUsed = False\<rparr>
   \<and> startsWith (body offline_page) (CHR 0x0A # ''                    <!DOCTYPE html>'')
   \<and> includes_str (body offline_page) ''</html>''
   \<and> length (body offline_page) = 1641"
proof -
  have h1: "intercepted env_offline nav_req"
    by (simp add: intercepted_def env_offline_def env_online_def nav_req_def)
  have h2: "destination nav_req = ''document''"
    by (simp add: nav_req_def)
  have h3: "storage_lookup (caches world0) (url nav_req) = None"
    by (simp add: world0_def)
  have h4: "net env_offline (url nav_req) = Inl fetch_failed"
    by (simp add: env_offline_def)
  have h5: "storage_lookup (caches world0) (resolve env_offline ''./index.html'') = None"
    by (simp add: world0_def)
  have h6: "length (objs world0) = 0"
    by (simp add: world0_def)
  show ?thesis
    using h1 h2 h3 h4 h5 offline_page_when_root_missing [OF h1 h2 h3 h4 h5]
    unfolding h6 by blast
qed

text \<open>
  Policy A, a navigation that is not in the storage while the network is down: the
  error is written to the console and the promise handed to \<^verbatim>\<open>respondWith\<close> is
  fulfilled with what the lookup of the root document \<^verbatim>\<open>./index.html\<close> gives, a
  response holding the stored entry, or undefined when the storage has none.
\<close>

theorem navigation_falls_back_to_root_lookup:
  assumes "intercepted env req" and "destination req = ''document''"
    and "storage_lookup (caches w) (url req) = None"
    and "net env (url req) = Inl e"
  shows "fst (fetch_A env req w) =
      RespondWith (Resolved
        (case storage_lookup (caches w) (resolve env ''./index.html'') of
           None \<Rightarrow> None | Some r \<Rightarrow> Some (length (objs w))))
    \<and> map_option content (deref (snd (fetch_A env req w)) (length (objs w)))
        = storage_lookup (caches w) (resolve env ''./index.html'')
    \<and> fst (fetch_A env req w) \<noteq> RespondWith (Rejected e)
    \<and> console (snd (fetch_A env req w))
        = console w @ [(Error, ''Service Worker: Network fetch failed'', JErr e)]"
  by (simp add: fetch_A_offline [OF assms] deref_def split: option.splits)

theorem navigation_falls_back_to_root_lookup_witness:
  "intercepted env_offline settings_req \<and> destination settings_req = ''document''
   \<and> storage_lookup (caches world_cached) (url settings_req) = None
   \<and> net env_offline (url settings_req) = Inl fetch_failed
   \<and> storage_lookup (caches world_cached) (resolve env_offline ''./index.html'') = Some page
   \<and> fst (fetch_A env_offline settings_req world_cached) = RespondWith (Resolved (Some 0))
   \<and> map_option content (deref (snd (fetch_A env_offline settings_req world_cached)) 0)
       = Some page"
proof -
  have h1: "intercepted env_offline settings_req"
    by (simp add: intercepted_def env_offline_def env_online_def settings_req_def)
  have h2: "destination settings_req = ''document''"
    by (simp add: settings_req_def)
  have h3: "storage_lookup (caches world_cached) (url settings_req) = None"
    by (simp add: world_cached_def world0_def settings_req_def no_fragment_def)
  have h4: "net env_offline (url settings_req) = Inl fetch_failed"
    by (simp add: env_offline_def)
  have h5: "storage_lookup (caches world_cached) (resolve env_offline ''./index.html'') = Some page"
    by (simp add: world_cached_def world0_def resolve_def env_offline_def env_online_def)
  have h6: "length (objs world_cached) = 0"
    by (simp add: world_cached_def world0_def)
  show ?thesis
    using h1 h2 h3 h4 navigation_falls_back_to_root_lookup [OF h1 h2 h3 h4]
    by (simp add: h5 h6)
qed

text \<open>
  C6 at a navigation with nothing in the storage and the network down. The callback of
  lines 103-113 answers with the promise of \<^verbatim>\<open>caches.match('./index.html')\<close> unchecked,
  and without a stored root document that promise is fulfilled with undefined: the
  promise handed to \<^verbatim>\<open>respondWith\<close> is fulfilled with undefined, it is not rejected
  with the error of the network. For a request that is no navigation the same callback
  rethrows the error (line 112).
\<close>

theorem navigation_failure_not_propagated:
  "intercepted env_offline nav_req \<and> destination nav_req = ''document''
   \<and> storage_lookup (caches world0) (url nav_req) = None
   \<and> net env_offline (url nav_req) = Inl fetch_failed
   \<and> storage_lookup (caches world0) (resolve env_offline ''./index.html'') = None
   \<and> fst (fetch_A env_offline nav_req world0) = RespondWith (Resolved None)
   \<and> fst (fetch_A env_offline nav_req world0) \<noteq> RespondWith (Rejected fetch_failed)
   \<and> fst (fetch_A env_offline script_req world0) = RespondWith (Rejected fetch_failed)"
  by (simp add: fetch_A_def on_failure_A_def on_network_A_def intercepted_def platform_defs
      example_defs)

subsection \<open>The command channel\<close>

lemma message_A_version:
  assumes "has_type (data event) ''GET_VERSION''" and "ports event = p # ps"
  shows "posted (message_A event w) = posted w @ [(p, JObj [(''version'', JStr CACHE_NAME_A)])]"
proof -
  have "\<not> has_type (data event) ''SKIP_WAITING''"
    using has_type_unique [OF assms(1)] by fastforce
  then show ?thesis
    using assms by (simp add: message_A_def detached_def post_first_def log_def)
qed

lemma message_B_version:
  assumes "has_type (data event) ''GET_VERSION''" and "ports event = p # ps"
  shows "posted (message_B env event w) = posted w @
     [(p, JObj [(''version'', JStr CACHE_NAME_B), (''offline'', JBool True),
                (''mode'', JStr ''offline-first'')])]"
proof -
  have "\<not> has_type (data event) ''SKIP_WAITING''" "\<not> has_type (data event) ''CACHE_STATUS''"
    using has_type_unique [OF assms(1)] by fastforce+
  then show ?thesis
    using assms by (simp add: message_B_def detached_def post_first_def log_def)
qed

lemma message_B_status:
  assumes "has_type (data event) ''CACHE_STATUS''" and "ports event = p # ps"
  shows "posted (message_B env event w) = posted w @
     [(p, JObj [(''cached'',
                 JBool (storage_lookup (caches w) (resolve env ''./index.html'') \<noteq> None)),
                (''ready'', JBool True), (''mode'', JStr ''offline'')])]"
proof -
  have "\<not> has_type (data event) ''SKIP_WAITING''" "\<not> has_type (data event) ''GET_VERSION''"
    using has_type_unique [OF assms(1)] by fastforce+
  then show ?thesis
    using assms
    by (cases "storage_lookup (caches w) (resolve env ''./index.html'')")
      (simp_all add: message_B_def detached_def post_first_def log_def then_p_def
        caches_match_def called_def alloc_def Let_def)
qed

lemma message_A_status:
  assumes "has_type (data event) ''CACHE_STATUS''"
  shows "posted (message_A event w) = posted w"
proof -
  have "\<not> has_type (data event) ''SKIP_WAITING''" "\<not> has_type (data event) ''GET_VERSION''"
    using has_type_unique [OF assms(1)] by fastforce+
  then show ?thesis
    by (simp add: message_A_def log_def)
qed

text \<open>
  C8, as the code has it. To a message of type \<^verbatim>\<open>GET_VERSION\<close> that comes with a port,
  Policy B posts on the first port one object with three fields: \<^verbatim>\<open>version\<close>, the
  constant \<^verbatim>\<open>CACHE_NAME\<close> of lines 196; \<^verbatim>\<open>offline\<close>, true; \<^verbatim>\<open>mode\<close>, the string
  \<^verbatim>\<open>offline-first\<close>. Policy A posts an object whose only field is \<^verbatim>\<open>version\<close>, the
  constant \<^verbatim>\<open>CACHE_NAME\<close> of line 4. Neither constant is the name of a cache that the
  policy keeps on activation.
\<close>

theorem version_reply:
  assumes "has_type (data event) ''GET_VERSION''" and "ports event = p # ps"
  shows "posted (message_B env event w) = posted w @
       [(p, JObj [(''version'', JStr CACHE_NAME_B), (''offline'', JBool True),
                  (''mode'', JStr ''offline-first'')])]
    \<and> posted (message_A event w) = posted w @ [(p, JObj [(''version'', JStr CACHE_NAME_A)])]
    \<and> \<not> current_A CACHE_NAME_A \<and> \<not> current_B CACHE_NAME_B"
  by (simp add: message_A_version [OF assms] message_B_version [OF assms] current_A_def
      current_B_def CACHE_NAME_A_def CACHE_NAME_B_def STATIC_CACHE_def DYNAMIC_CACHE_def)

theorem version_reply_witness:
  "has_type (data version_event) ''GET_VERSION'' \<and> ports version_event = [7]
   \<and> posted (message_B env_online version_event world0) =
       [(7, JObj [(''version'', JStr ''better-yourself-offline-v1.0.0''),
                  (''offline'', JBool True), (''mode'', JStr ''offline-first'')])]
   \<and> posted (message_A version_event world0) =
       [(7, JObj [(''version'', JStr ''better-yourself-v1.0.0'')])]"
proof -
  have h1: "has_type (data version_event) ''GET_VERSION''"
    by (simp add: version_event_def)
  have h2: "ports version_event = [7]"
    by (simp add: version_event_def)
  show ?thesis
    using h1 h2 version_reply [OF h1 h2, of env_online world0]
    by (simp add: world0_def CACHE_NAME_A_def CACHE_NAME_B_def)
qed

text \<open>
  C8 as the spec states it fails under Policy A: the reply has no \<^verbatim>\<open>offline\<close> field and
  no \<^verbatim>\<open>mode\<close> field, and its \<^verbatim>\<open>version\<close> names no cache of the worker.
\<close>

theorem version_reply_A_has_no_mode:
  "has_type (data version_event) ''GET_VERSION''
   \<and> posted (message_A version_event world0) =
       [(7, JObj [(''version'', JStr ''better-yourself-v1.0.0'')])]
   \<and> field (snd (hd (posted (message_A version_event world0)))) ''offline'' = None
   \<and> field (snd (hd (posted (message_A version_event world0)))) ''mode'' = None
   \<and> ''better-yourself-v1.0.0'' \<noteq> STATIC_CACHE \<and> ''better-yourself-v1.0.0'' \<noteq> DYNAMIC_CACHE"
  by (simp add: message_A_def detached_def post_first_def log_def skipWaiting_def
      version_event_def world0_def CACHE_NAME_A_def STATIC_CACHE_def DYNAMIC_CACHE_def)

text \<open>
  C9, as the code has it. To a message of type \<^verbatim>\<open>CACHE_STATUS\<close> that comes with a port,
  Policy B posts on the first port the object \<^verbatim>\<open>{cached, ready, mode}\<close>: \<^verbatim>\<open>cached\<close> is
  true exactly when some cache of the storage holds \<^verbatim>\<open>./index.html\<close>, \<^verbatim>\<open>ready\<close> is true,
  \<^verbatim>\<open>mode\<close> is the string \<^verbatim>\<open>offline\<close>. Policy A has no branch for the message and posts
  nothing.
\<close>

theorem cache_status_reply:
  assumes "has_type (data event) ''CACHE_STATUS''" and "ports event = p # ps"
  shows "posted (message_B env event w) = posted w @
       [(p, JObj [(''cached'',
                   JBool (storage_lookup (caches w) (resolve env ''./index.html'') \<noteq> None)),
                  (''ready'', JBool True), (''mode'', JStr ''offline'')])]
    \<and> posted (message_A event w) = posted w"
  by (simp add: message_B_status [OF assms] message_A_status [OF assms(1)])

theorem cache_status_reply_witness:
  "has_type (data status_event) ''CACHE_STATUS'' \<and> ports status_event = [7]
   \<and> posted (message_B env_online status_event world_cached) =
       [(7, JObj [(''cached'', JBool True), (''ready'', JBool True),
                  (''mode'', JStr ''offline'')])]
   \<and> posted (message_B env_online status_event world0) =
       [(7, JObj [(''cached'', JBool False), (''ready'', JBool True),
                  (''mode'', JStr ''offline'')])]"
proof -
  have h1: "has_type (data status_event) ''CACHE_STATUS''"
    by (simp add: status_event_def)
  have h2: "ports status_event = [7]"
    by (simp add: status_event_def)
  have h3: "storage_lookup (caches world_cached) (resolve env_online ''./index.html'') = Some page"
    "storage_lookup (caches world0) (resolve env_online ''./index.html'') = None"
    "posted world_cached = []" "posted world0 = []"
    by (simp_all add: world_cached_def world0_def resolve_def env_online_def)
  show ?thesis
    using h1 h2 cache_status_reply [OF h1 h2, of env_online world_cached]
      cache_status_reply [OF h1 h2, of env_online world0]
    by (simp add: h3)
qed

text \<open>C9 as the spec states it fails under Policy A: no reply is sent.\<close>

theorem cache_status_unanswered_A:
  "has_type (data status_event) ''CACHE_STATUS'' \<and> ports status_event = [7]
   \<and> posted (message_A status_event world0) = []"
  by (simp add: message_A_def log_def status_event_def world0_def)

subsection \<open>Installation\<close>

lemma install_A_always_succeeds: "fst (install_A env w) = Resolved ()"
  by (simp add: install_A_def install_listener_A_def cleanupCaches_def started_def catch_p_def
      then_p_def skipWaiting_def split: prod.splits promise.splits)

lemma addAll_fails:
  assumes "first_failure (map (net env) (map (resolve env) urls)) = Some e"
  shows "fst (cache_addAll env name urls w) = Rejected e"
    and "caches (snd (cache_addAll env name urls w)) = caches w"
  using assms by (simp_all add: cache_addAll_def called_def Let_def)

text \<open>
  Policy B: when a URL of \<^verbatim>\<open>STATIC_FILES\<close> cannot be fetched, the install event fails
  with the error (through the listener of lines 395-407), the static cache exists and
  no cache got an entry.
\<close>

lemma install_B_fails:
  assumes "first_failure (map (net env) (map (resolve env) STATIC_FILES)) = Some e"
    and "open_err env STATIC_CACHE = None"
  shows "fst (install_B env w) = Rejected e"
    and "caches (snd (install_B env w)) =
      (if STATIC_CACHE \<in> set (map fst (caches w)) then caches w
       else caches w @ [(STATIC_CACHE, [])])"
    and "calls (snd (install_B env w)) =
      calls w
      @ [CachesOpen STATIC_CACHE, CachesOpen STATIC_CACHE]
      @ [CacheAddAll STATIC_CACHE (map (resolve env) STATIC_FILES)]
      @ map NetFetch (map (resolve env) STATIC_FILES)
      @ [CacheAddAll STATIC_CACHE (map (resolve env) STATIC_FILES)]
      @ map NetFetch (map (resolve env) STATIC_FILES)"
  using assms
  by (simp_all add: install_B_def install_listener_B_def install_ready_B_def started_def
      catch_p_def then_p_def caches_open_def cache_addAll_def called_def log_def Let_def)

text \<open>
  C1 at a deployment without \<^verbatim>\<open>manifest.json\<close>. Under Policy A the promise of the install
  event is fulfilled although \<^verbatim>\<open>cache.addAll\<close> rejected: the \<^verbatim>\<open>catch\<close> of lines 29-31
  writes \<^verbatim>\<open>Installation failed\<close> to the console and ends the chain with a value. The
  worker counts as installed, with a static cache that holds nothing. Under Policy B
  the same deployment fails the install event.
\<close>

theorem install_A_swallows_failure:
  "first_failure (map (net env_no_manifest) (map (resolve env_no_manifest) STATIC_FILES))
     = Some (TypeError ''Request failed'')
   \<and> fst (install_A env_no_manifest world0) = Resolved ()
   \<and> caches (snd (install_A env_no_manifest world0)) = [(STATIC_CACHE, [])]
   \<and> console (snd (install_A env_no_manifest world0)) =
       [(Info, ''Service Worker: Installing...'', JUndefined),
        (Info, ''Service Worker: Caching static files'', JUndefined),
        (Error, ''Service Worker: Installation failed'', JErr (TypeError ''Request failed''))]
   \<and> fst (install_B env_no_manifest world0) = Rejected (TypeError ''Request failed'')"
  by (simp add: install_A_def install_listener_A_def cleanupCaches_def
      install_B_def install_listener_B_def install_ready_B_def STATIC_FILES_def
      STATIC_CACHE_def DYNAMIC_CACHE_def platform_defs example_defs)

subsection \<open>The guard of the fetch listeners\<close>

lemma fetch_declines:
  assumes "http_method req \<noteq> ''GET'' \<or> \<not> startsWith (url req) (origin env)"
  shows "fetch_A env req w = (PassThrough, w)"
    and "fst (fetch_B env req w) = PassThrough"
    and "snd (fetch_B env req w) = w\<lparr>console := console (snd (fetch_B env req w))\<rparr>"
  using assms
  by (auto simp: fetch_A_def fetch_B_def fetch_listener_B_def fetch_logger_B_def log_def)

lemma origin_of_prefix: "startsWith u (origin_of u)"
proof (cases "scheme_end u")
  case None
  then show ?thesis using startsWith_self [of u "[]"] by (simp add: origin_of_def)
next
  case (Some n)
  let ?a = "take (n + 3) u @ takeWhile (\<lambda>c. c \<noteq> CHR ''/'') (drop (n + 3) u)"
  let ?b = "dropWhile (\<lambda>c. c \<noteq> CHR ''/'') (drop (n + 3) u)"
  have eq: "?a @ ?b = u"
    by simp
  have "startsWith (?a @ ?b) ?a"
    by (rule startsWith_self)
  then have "startsWith u ?a"
    unfolding eq .
  then show ?thesis
    using Some by (simp add: origin_of_def)
qed

text \<open>Every GET request to the worker's own origin passes the guard.\<close>

lemma same_origin_intercepted:
  "http_method req = ''GET'' \<Longrightarrow> same_origin env req \<Longrightarrow> intercepted env req"
  using origin_of_prefix [of "url req"] by (simp add: same_origin_def intercepted_def)

text \<open>
  C7 at a GET request to another port of the worker's host. The origin of the request
  is not the worker's, but its URL starts with the text of the worker's origin, so the
  test of lines 67 and 258 lets it through: both policies hand a promise to
  \<^verbatim>\<open>respondWith\<close> and look the request up in the storage.
\<close>

theorem foreign_port_intercepted:
  "http_method api_req = ''GET''
   \<and> origin_of (url api_req) = ''http://localhost:8080''
   \<and> origin env_local = ''http://localhost''
   \<and> \<not> same_origin env_local api_req
   \<and> fst (fetch_A env_local api_req world0) = RespondWith (Resolved (Some 0))
   \<and> storage_calls (snd (fetch_A env_local api_req world0)) = [CachesMatch (url api_req)]
   \<and> fst (fetch_B env_local api_req world0) = RespondWith (Resolved (Some 0))
   \<and> storage_calls (snd (fetch_B env_local api_req world0)) = [CachesMatch (url api_req)]"
  by (simp add: fetch_A_def fetch_B_def fetch_listener_B_def fetch_logger_B_def
      on_network_A_def on_network_B_def same_origin_def origin_of_def storage_calls_def
      is_storage_def env_local_def api_req_def api_response_def platform_defs example_defs)

subsection \<open>A request that the storage does not hold, answered by the network\<close>

lemma cache_match_append:
  "cache_match (a @ b) u =
     (case cache_match a u of Some r \<Rightarrow> Some r | None \<Rightarrow> cache_match b u)"
  by (induction a u rule: cache_match.induct) auto

lemma cache_store_holds: "cache_match (cache_store c u r) u = Some r"
proof -
  have "cache_match (filter (\<lambda>kv. no_fragment (fst kv) \<noteq> no_fragment u) c) u = None"
    by (induction c) auto
  then show ?thesis
    by (simp add: cache_store_def cache_match_append)
qed

lemma storage_store_holds:
  "n \<in> set (map fst cs) \<Longrightarrow>
     map_option (\<lambda>c. cache_match c u) (map_of (storage_store cs n u r) n) = Some (Some r)"
  by (induction cs) (auto simp: storage_store_def cache_store_holds)

lemma fetch_A_miss_open_fails:
  assumes "intercepted env req" and "storage_lookup (caches w) (url req) = None"
    and "net env (url req) = Inr r" and "status r = 200" and "rtype r = Basic"
    and "open_err env DYNAMIC_CACHE = Some e"
  shows "fetch_A env req w =
     (RespondWith (Resolved (Some (length (objs w)))),
      w\<lparr>objs := objs w @ [\<lparr>content = r, bodyUsed = False\<rparr>, \<lparr>content = r, bodyUsed = False\<rparr>],
        calls := calls w @ [CachesMatch (url req), NetFetch (url req), CachesOpen DYNAMIC_CACHE],
        console := console w @
          [(Error, ''Service Worker: Failed to cache dynamic content'', JErr e)]\<rparr>)"
  using assms
  by (simp add: fetch_A_def on_network_A_def cache_dynamic_A_def intercepted_def
      respondWith_def then_p_def catch_p_def detached_def caches_match_def net_fetch_def
      clone_def deref_def caches_open_def called_def alloc_def log_def nth_append)

lemma fetch_A_miss_put_fails:
  assumes "intercepted env req" and "storage_lookup (caches w) (url req) = None"
    and "net env (url req) = Inr r" and "status r = 200" and "rtype r = Basic"
    and "open_err env DYNAMIC_CACHE = None"
    and "put_err env DYNAMIC_CACHE (url req) = Some e"
  shows "fetch_A env req w =
     (RespondWith (Resolved (Some (length (objs w)))),
      w\<lparr>objs := objs w @ [\<lparr>content = r, bodyUsed = False\<rparr>, \<lparr>content = r, bodyUsed = False\<rparr>],
        calls := calls w @ [CachesMatch (url req), NetFetch (url req), CachesOpen DYNAMIC_CACHE,
                            CachePut DYNAMIC_CACHE (url req)],
        console := console w @
          [(Info, ''Service Worker: Caching dynamic content'', JStr (url req))],
        caches := (if DYNAMIC_CACHE \<in> set (map fst (caches w)) then caches w
                   else caches w @ [(DYNAMIC_CACHE, [])]),
        uncaught := uncaught w @ [e]\<rparr>)"
  using assms
  by (simp add: fetch_A_def on_network_A_def cache_dynamic_A_def intercepted_def
      respondWith_def then_p_def catch_p_def detached_def caches_match_def net_fetch_def
      clone_def deref_def caches_open_def cache_put_def called_def alloc_def log_def nth_append)

lemma fetch_A_miss_stored:
  assumes "intercepted env req" and "storage_lookup (caches w) (url req) = None"
    and "net env (url req) = Inr r" and "status r = 200" and "rtype r = Basic"
    and "open_err env DYNAMIC_CACHE = None"
    and "put_err env DYNAMIC_CACHE (url req) = None"
  shows "fetch_A env req w =
     (RespondWith (Resolved (Some (length (objs w)))),
      w\<lparr>objs := objs w @ [\<lparr>content = r, bodyUsed = False\<rparr>, \<lparr>content = r, bodyUsed = True\<rparr>],
        calls := calls w @ [CachesMatch (url req), NetFetch (url req), CachesOpen DYNAMIC_CACHE,
                            CachePut DYNAMIC_CACHE (url req)],
        console := console w @
          [(Info, ''Service Worker: Caching dynamic content'', JStr (url req))],
        caches := storage_store
                    (if DYNAMIC_CACHE \<in> set (map fst (caches w)) then caches w
                     else caches w @ [(DYNAMIC_CACHE, [])])
                    DYNAMIC_CACHE (url req) r\<rparr>)"
  using assms
  by (simp add: fetch_A_def on_network_A_def cache_dynamic_A_def intercepted_def
      respondWith_def then_p_def catch_p_def detached_def caches_match_def net_fetch_def
      clone_def deref_def caches_open_def cache_put_def called_def alloc_def log_def nth_append
      list_update_append)

text \<open>
  Policy A: a cacheable response of the network is cloned while its body is unread,
  the caller gets the original with its body still unread, the network was called once
  and \<^verbatim>\<open>cache.put\<close> at most once, on the clone; once the put succeeded, the cache holds
  what the original holds.
\<close>

lemma fetch_A_miss_returns_original:
  assumes "intercepted env req" and "storage_lookup (caches w) (url req) = None"
    and "net env (url req) = Inr r" and "status r = 200" and "rtype r = Basic"
  shows "fst (fetch_A env req w) = RespondWith (Resolved (Some (length (objs w))))
    \<and> deref (snd (fetch_A env req w)) (length (objs w)) = Some \<lparr>content = r, bodyUsed = False\<rparr>
    \<and> map_option content (deref (snd (fetch_A env req w)) (Suc (length (objs w)))) = Some r
    \<and> network_calls (snd (fetch_A env req w)) = Suc (network_calls w)
    \<and> filter is_put (calls (snd (fetch_A env req w))) =
        filter is_put (calls w) @
          (if open_err env DYNAMIC_CACHE = None then [CachePut DYNAMIC_CACHE (url req)] else [])"
proof (cases "open_err env DYNAMIC_CACHE")
  case (Some e)
  show ?thesis
    by (simp add: fetch_A_miss_open_fails [OF assms Some] Some deref_def network_calls_def
        is_net_def is_put_def nth_append)
next
  case None
  show ?thesis
  proof (cases "put_err env DYNAMIC_CACHE (url req)")
    case (Some e)
    show ?thesis
      by (simp add: fetch_A_miss_put_fails [OF assms None Some] None deref_def
          network_calls_def is_net_def is_put_def nth_append)
  next
    case none: None
    show ?thesis
      by (simp add: fetch_A_miss_stored [OF assms None none] None deref_def
          network_calls_def is_net_def is_put_def nth_append)
  qed
qed

lemma fetch_A_miss_entry_stored:
  assumes "intercepted env req" and "storage_lookup (caches w) (url req) = None"
    and "net env (url req) = Inr r" and "status r = 200" and "rtype r = Basic"
    and "open_err env DYNAMIC_CACHE = None"
    and "put_err env DYNAMIC_CACHE (url req) = None"
  shows "map_option (\<lambda>c. cache_match c (url req))
           (map_of (caches (snd (fetch_A env req w))) DYNAMIC_CACHE) = Some (Some r)"
  by (simp add: fetch_A_miss_stored [OF assms] storage_store_holds)

lemma fetch_B_miss_open_fails:
  assumes "intercepted env req" and "storage_lookup (caches w) (url req) = None"
    and "net env (url req) = Inr r" and "status r = 200" and "rtype r = Basic"
    and "open_err env STATIC_CACHE = Some e"
  shows "fetch_B env req w =
     (RespondWith (Resolved (Some (length (objs w)))),
      w\<lparr>objs := objs w @ [\<lparr>content = r, bodyUsed = False\<rparr>, \<lparr>content = r, bodyUsed = False\<rparr>],
        calls := calls w @ [CachesMatch (url req), NetFetch (url req), CachesOpen STATIC_CACHE],
        console := console w @
          [(Error, ''Service Worker: Failed to cache new content'', JErr e)]\<rparr>)"
  using assms
  by (simp add: fetch_B_def fetch_listener_B_def
      on_network_B_def cache_new_B_def intercepted_def
      respondWith_def then_p_def catch_p_def detached_def caches_match_def net_fetch_def
      clone_def deref_def caches_open_def called_def alloc_def log_def nth_append)

lemma fetch_B_miss_put_fails:
  assumes "intercepted env req" and "storage_lookup (caches w) (url req) = None"
    and "net env (url req) = Inr r" and "status r = 200" and "rtype r = Basic"
    and "open_err env STATIC_CACHE = None"
    and "put_err env STATIC_CACHE (url req) = Some e"
  shows "fetch_B env req w =
     (RespondWith (Resolved (Some (length (objs w)))),
      w\<lparr>objs := objs w @ [\<lparr>content = r, bodyUsed = False\<rparr>, \<lparr>content = r, bodyUsed = False\<rparr>],
        calls := calls w @ [CachesMatch (url req), NetFetch (url req), CachesOpen STATIC_CACHE,
                            CachePut STATIC_CACHE (url req)],
        console := console w @
          [(Info, ''Service Worker: Caching new content'', JStr (url req))],
        caches := (if STATIC_CACHE \<in> set (map fst (caches w)) then caches w
                   else caches w @ [(STATIC_CACHE, [])]),
        uncaught := uncaught w @ [e]\<rparr>)"
  using assms
  by (simp add: fetch_B_def fetch_listener_B_def
      on_network_B_def cache_new_B_def intercepted_def
      respondWith_def then_p_def catch_p_def detached_def caches_match_def net_fetch_def
      clone_def deref_def caches_open_def cache_put_def called_def alloc_def log_def nth_append)

lemma fetch_B_miss_stored:
  assumes "intercepted env req" and "storage_lookup (caches w) (url req) = None"
    and "net env (url req) = Inr r" and "status r = 200" and "rtype r = Basic"
    and "open_err env STATIC_CACHE = None"
    and "put_err env STATIC_CACHE (url req) = None"
  shows "fetch_B env req w =
     (RespondWith (Resolved (Some (length (objs w)))),
      w\<lparr>objs := objs w @ [\<lparr>content = r, bodyUsed = False\<rparr>, \<lparr>content = r, bodyUsed = True\<rparr>],
        calls := calls w @ [CachesMatch (url req), NetFetch (url req), CachesOpen STATIC_CACHE,
                            CachePut STATIC_CACHE (url req)],
        console := console w @
          [(Info, ''Service Worker: Caching new content'', JStr (url req))],
        caches := storage_store
                    (if STATIC_CACHE \<in> set (map fst (caches w)) then caches w
                     else caches w @ [(STATIC_CACHE, [])])
                    STATIC_CACHE (url req) r\<rparr>)"
  using assms
  by (simp add: fetch_B_def fetch_listener_B_def
      on_network_B_def cache_new_B_def intercepted_def
      respondWith_def then_p_def catch_p_def detached_def caches_match_def net_fetch_def
      clone_def deref_def caches_open_def cache_put_def called_def alloc_def log_def nth_append
      list_update_append)

text \<open>
  Policy B: a cacheable response of the network is cloned while its body is unread,
  the caller gets the original with its body still unread, the network was called once
  and \<^verbatim>\<open>cache.put\<close> at most once, on the clone; once the put succeeded, the cache holds
  what the original holds.
\<close>

lemma fetch_B_miss_returns_original:
  assumes "intercepted env req" and "storage_lookup (caches w) (url req) = None"
    and "net env (url req) = Inr r" and "status r = 200" and "rtype r = Basic"
  shows "fst (fetch_B env req w) = RespondWith (Resolved (Some (length (objs w))))
    \<and> deref (snd (fetch_B env req w)) (length (objs w)) = Some \<lparr>content = r, bodyUsed = False\<rparr>
    \<and> map_option content (deref (snd (fetch_B env req w)) (Suc (length (objs w)))) = Some r
    \<and> network_calls (snd (fetch_B env req w)) = Suc (network_calls w)
    \<and> filter is_put (calls (snd (fetch_B env req w))) =
        filter is_put (calls w) @
          (if open_err env STATIC_CACHE = None then [CachePut STATIC_CACHE (url req)] else [])"
proof (cases "open_err env STATIC_CACHE")
  case (Some e)
  show ?thesis
    by (simp add: fetch_B_miss_open_fails [OF assms Some] Some deref_def network_calls_def
        is_net_def is_put_def nth_append)
next
  case None
  show ?thesis
  proof (cases "put_err env STATIC_CACHE (url req)")
    case (Some e)
    show ?thesis
      by (simp add: fetch_B_miss_put_fails [OF assms None Some] None deref_def
          network_calls_def is_net_def is_put_def nth_append)
  next
    case none: None
    show ?thesis
      by (simp add: fetch_B_miss_stored [OF assms None none] None deref_def
          network_calls_def is_net_def is_put_def nth_append)
  qed
qed

lemma fetch_B_miss_entry_stored:
  assumes "intercepted env req" and "storage_lookup (caches w) (url req) = None"
    and "net env (url req) = Inr r" and "status r = 200" and "rtype r = Basic"
    and "open_err env STATIC_CACHE = None"
    and "put_err env STATIC_CACHE (url req) = None"
  shows "map_option (\<lambda>c. cache_match c (url req))
           (map_of (caches (snd (fetch_B env req w))) STATIC_CACHE) = Some (Some r)"
  by (simp add: fetch_B_miss_stored [OF assms] storage_store_holds)

text \<open>
  C4 at a storage that is full. The cache opens and \<^verbatim>\<open>cache.put\<close> rejects. The callback
  of lines 93-96 (and 285-288) does not return the promise of \<^verbatim>\<open>cache.put\<close>, so the
  \<^verbatim>\<open>catch\<close> after it never sees the rejection: the caller gets the response, the console
  holds no line about the failure, and the rejection stays unhandled.
\<close>

theorem store_failure_not_logged:
  "intercepted env_full nav_req
   \<and> storage_lookup (caches world0) (url nav_req) = None
   \<and> net env_full (url nav_req) = Inr page \<and> status page = 200 \<and> rtype page = Basic
   \<and> put_err env_full DYNAMIC_CACHE (url nav_req) = Some (DOMException ''QuotaExceededError'')
   \<and> fst (fetch_A env_full nav_req world0) = RespondWith (Resolved (Some 0))
   \<and> console (snd (fetch_A env_full nav_req world0)) =
       [(Info, ''Service Worker: Caching dynamic content'', JStr (url nav_req))]
   \<and> uncaught (snd (fetch_A env_full nav_req world0)) = [DOMException ''QuotaExceededError'']
   \<and> fst (fetch_B env_full nav_req world0) = RespondWith (Resolved (Some 0))
   \<and> console (snd (fetch_B env_full nav_req world0)) =
       [(Info, ''Service Worker: Caching new content'', JStr (url nav_req))]
   \<and> uncaught (snd (fetch_B env_full nav_req world0)) = [DOMException ''QuotaExceededError'']"
proof -
  have h1: "intercepted env_full nav_req"
    by (simp add: intercepted_def env_full_def env_online_def nav_req_def)
  have h2: "storage_lookup (caches world0) (url nav_req) = None"
    by (simp add: world0_def)
  have h3: "net env_full (url nav_req) = Inr page" "status page = 200" "rtype page = Basic"
    by (simp_all add: env_full_def env_online_def page_def)
  have h4: "open_err env_full n = None"
    "put_err env_full n (url nav_req) = Some (DOMException ''QuotaExceededError'')" for n
    by (simp_all add: env_full_def env_online_def)
  have h5: "length (objs world0) = 0" "console world0 = []" "uncaught world0 = []"
    by (simp_all add: world0_def)
  show ?thesis
    using h1 h2 h3 h4
    by (simp add: fetch_A_miss_put_fails [OF h1 h2 h3 h4] fetch_B_miss_put_fails [OF h1 h2 h3 h4] h5)
qed

end
